theory Spec2Isabelle
  imports Complex_Main "HOL-Library.Sublist"
begin

section \<open>Data model (types.ts)\<close>

text \<open>
  The numbers of the user-interface state (the transform, the cached position, rotation
  and scale of a scene object, the values of sliders and number fields) are modelled as
  real numbers: their arithmetic is exact, and NaN and the infinities are outside that
  part of the model. The only place where the sources test such a number for NaN is the
  result of \<^verbatim>\<open>parseFloat\<close>; there NaN is the value \<^const>\<open>None\<close>. The elements of a
  matrix are double-precision numbers, introduced below, because the matrix operations
  round after every step and compare what they computed with zero and with each other.

  \<^verbatim>\<open>{ x: number; y: number; z: number }\<close> and \<^verbatim>\<open>THREE.Vector3\<close> are both three
  numbers; \<^verbatim>\<open>THREE.Euler\<close> and \<^verbatim>\<open>THREE.Quaternion\<close> extend them by a
  rotation order and by a fourth component.
\<close>

record xyz =
  x :: real
  y :: real
  z :: real

datatype EulerOrder = XYZ | YZX | ZXY | XZY | YXZ | ZYX

record Euler = xyz +
  order :: EulerOrder

record Quaternion = xyz +
  w :: real

section \<open>Double-precision numbers\<close>

text \<open>
  A JavaScript number is an IEEE 754 double: a finite double is the real number it
  denotes, and next to the finite ones there are the two infinities and NaN. The two
  zeros are one value here: they are equal for \<^verbatim>\<open>===\<close>, and they behave alike in sums,
  differences and products and as a dividend. Only a quotient by zero tells them apart,
  by the sign of the infinity; the quotient below is that by the positive zero, and the
  sources divide by a determinant only after they have compared it with zero.

  Every operation returns the exact result rounded to the nearest double, and to the one
  with the even significand when two are equally near. A double has 53 significant
  bits: around a number between \<open>2\<^sup>k\<close> and \<open>2\<^sup>k\<^sup>+\<^sup>1\<close> the doubles are \<open>2\<^sup>k\<^sup>-\<^sup>5\<^sup>2\<close> apart, but
  never less than \<open>2\<^sup>-\<^sup>1\<^sup>0\<^sup>7\<^sup>4\<close>, and a rounded magnitude of \<open>2\<^sup>1\<^sup>0\<^sup>2\<^sup>4\<close> or more is an
  infinity.
\<close>

datatype double = Finite real | PosInfinity | NegInfinity | NaN

definition roundTiesToEven :: "real \<Rightarrow> int" where
  "roundTiesToEven v =
     (if v - of_int \<lfloor>v\<rfloor> < 1 / 2 then \<lfloor>v\<rfloor>
      else if 1 / 2 < v - of_int \<lfloor>v\<rfloor> then \<lfloor>v\<rfloor> + 1
      else if even \<lfloor>v\<rfloor> then \<lfloor>v\<rfloor> else \<lfloor>v\<rfloor> + 1)"

definition ulp :: "real \<Rightarrow> real" where
  "ulp v = 2 powi (max \<lfloor>log 2 \<bar>v\<bar>\<rfloor> (- 1022) - 52)"

definition round64 :: "real \<Rightarrow> double" where
  "round64 v =
     (if v = 0 then Finite 0
      else
        (let r = of_int (roundTiesToEven (v / ulp v)) * ulp v
         in if 2 ^ 1024 \<le> \<bar>r\<bar> then (if 0 < v then PosInfinity else NegInfinity)
            else Finite r))"

text \<open>
  The arithmetic of doubles, under the usual signs, so that a formula of the library
  reads here as it reads there. Addition and multiplication are not associative:
  a formula is computed in the order in which it is written, from the left.
\<close>

instantiation double :: "{zero, one, plus, uminus, minus, times, inverse, abs, ord}"
begin

definition zero_double :: double where
  "zero_double = Finite 0"

definition one_double :: double where
  "one_double = Finite 1"

fun plus_double :: "double \<Rightarrow> double \<Rightarrow> double" where
  "plus_double (Finite a) (Finite b) = round64 (a + b)"
| "plus_double NaN b = NaN"
| "plus_double a NaN = NaN"
| "plus_double PosInfinity NegInfinity = NaN"
| "plus_double NegInfinity PosInfinity = NaN"
| "plus_double PosInfinity b = PosInfinity"
| "plus_double NegInfinity b = NegInfinity"
| "plus_double (Finite a) b = b"

fun uminus_double :: "double \<Rightarrow> double" where
  "uminus_double (Finite a) = Finite (- a)"
| "uminus_double PosInfinity = NegInfinity"
| "uminus_double NegInfinity = PosInfinity"
| "uminus_double NaN = NaN"

definition minus_double :: "double \<Rightarrow> double \<Rightarrow> double" where
  "minus_double a b = a + (- b)"

fun times_double :: "double \<Rightarrow> double \<Rightarrow> double" where
  "times_double (Finite a) (Finite b) = round64 (a * b)"
| "times_double NaN b = NaN"
| "times_double a NaN = NaN"
| "times_double (Finite a) PosInfinity =
     (if a = 0 then NaN else if 0 < a then PosInfinity else NegInfinity)"
| "times_double (Finite a) NegInfinity =
     (if a = 0 then NaN else if 0 < a then NegInfinity else PosInfinity)"
| "times_double PosInfinity (Finite b) =
     (if b = 0 then NaN else if 0 < b then PosInfinity else NegInfinity)"
| "times_double NegInfinity (Finite b) =
     (if b = 0 then NaN else if 0 < b then NegInfinity else PosInfinity)"
| "times_double PosInfinity PosInfinity = PosInfinity"
| "times_double PosInfinity NegInfinity = NegInfinity"
| "times_double NegInfinity PosInfinity = NegInfinity"
| "times_double NegInfinity NegInfinity = PosInfinity"

fun divide_double :: "double \<Rightarrow> double \<Rightarrow> double" where
  "divide_double (Finite a) (Finite b) =
     (if b = 0 then (if a = 0 then NaN else if 0 < a then PosInfinity else NegInfinity)
      else round64 (a / b))"
| "divide_double NaN b = NaN"
| "divide_double a NaN = NaN"
| "divide_double (Finite a) PosInfinity = Finite 0"
| "divide_double (Finite a) NegInfinity = Finite 0"
| "divide_double PosInfinity (Finite b) = (if 0 \<le> b then PosInfinity else NegInfinity)"
| "divide_double NegInfinity (Finite b) = (if 0 \<le> b then NegInfinity else PosInfinity)"
| "divide_double PosInfinity PosInfinity = NaN"
| "divide_double PosInfinity NegInfinity = NaN"
| "divide_double NegInfinity PosInfinity = NaN"
| "divide_double NegInfinity NegInfinity = NaN"

definition inverse_double :: "double \<Rightarrow> double" where
  "inverse_double a = divide (Finite 1) a"

fun abs_double :: "double \<Rightarrow> double" where
  "abs_double (Finite a) = Finite \<bar>a\<bar>"
| "abs_double PosInfinity = PosInfinity"
| "abs_double NegInfinity = PosInfinity"
| "abs_double NaN = NaN"

fun less_double :: "double \<Rightarrow> double \<Rightarrow> bool" where
  "less_double (Finite a) (Finite b) = (a < b)"
| "less_double NaN b = False"
| "less_double a NaN = False"
| "less_double PosInfinity b = False"
| "less_double a NegInfinity = False"
| "less_double (Finite a) PosInfinity = True"
| "less_double NegInfinity b = True"

definition less_eq_double :: "double \<Rightarrow> double \<Rightarrow> bool" where
  "less_eq_double a b = (a < b \<or> (a = b \<and> a \<noteq> NaN))"

instance ..

end

text \<open>\<^verbatim>\<open>a === b\<close> on numbers: NaN equals nothing, not even itself.\<close>

definition strictEquals :: "double \<Rightarrow> double \<Rightarrow> bool" where
  "strictEquals a b = (a = b \<and> a \<noteq> NaN)"

section \<open>Matrices, meshes and the store\<close>

text \<open>
  \<^verbatim>\<open>THREE.Matrix4\<close>: the sixteen numbers of \<^verbatim>\<open>elements\<close>, in column-major order;
  field \<open>e\<^sub>i\<close> is \<^verbatim>\<open>elements[i]\<close>. A matrix of the program holds doubles; the type of
  the elements is left open so that the formulas of the library can also be read over
  the real numbers, where they are exact.
\<close>

record 'a Matrix4 =
  e0 :: 'a
  e1 :: 'a
  e2 :: 'a
  e3 :: 'a
  e4 :: 'a
  e5 :: 'a
  e6 :: 'a
  e7 :: 'a
  e8 :: 'a
  e9 :: 'a
  e10 :: 'a
  e11 :: 'a
  e12 :: 'a
  e13 :: 'a
  e14 :: 'a
  e15 :: 'a

text \<open>
  Matrices and meshes are objects that the panels and the viewport mutate in place, so
  they live in a store and the records below hold references to them. \<open>nextRef\<close> is the
  next unused matrix address. Of a \<^verbatim>\<open>THREE.Mesh\<close> the model keeps the fields that the
  modelled code writes: the reference to its local matrix, the flags
  \<^verbatim>\<open>matrixAutoUpdate\<close> and \<^verbatim>\<open>visible\<close>, and its position, rotation and scale (the
  quaternion that the library keeps in step with the rotation is not a field of its
  own).
\<close>

type_synonym ref = nat

record Mesh =
  matrix :: ref
  matrixAutoUpdate :: bool
  visible :: bool
  position :: xyz
  rotation :: Euler
  scale :: xyz

record Store =
  matrix4s :: "ref \<Rightarrow> double Matrix4"
  meshes :: "ref \<Rightarrow> Mesh"
  nextRef :: ref

datatype ObjectType = cube | sphere | cylinder | plane

text \<open>
  \<^verbatim>\<open>SceneObject\<close>. The field \<^verbatim>\<open>id\<close> is called \<open>id'\<close> here. The mesh and the
  cached matrix are references into the store. The cached position, rotation and scale
  are held in the record itself: a write to one of them in place is a new value of the
  element of \<^verbatim>\<open>state.objects\<close>. The elements of the list are distinct objects, each
  built by \<^verbatim>\<open>addObject\<close>.
\<close>

record SceneObject =
  id' :: string
  name :: string
  type :: ObjectType
  mesh :: ref
  position :: xyz
  rotation :: Euler
  scale :: xyz
  matrix :: ref
  color :: string

record Transform =
  position :: xyz
  rotation :: xyz
  scale :: xyz

datatype Projection = perspective | orthographic

record ViewportSettings =
  showGrid :: bool
  showAxes :: bool
  wireframe :: bool
  projection :: Projection

datatype Theme = light | dark

record AppState =
  objects :: "SceneObject list"
  selectedObjectId :: "string option"
  transform :: Transform
  viewportSettings :: ViewportSettings
  theme :: Theme

section \<open>Actions and the reducer (contexts/AppContext.tsx)\<close>

text \<open>
  The payload of \<^verbatim>\<open>UPDATE_TRANSFORM\<close> and of \<^verbatim>\<open>UPDATE_VIEWPORT_SETTINGS\<close> is an
  object literal holding some of the keys of the record it is spread over: a key that
  is absent is \<^const>\<open>None\<close>.
\<close>

record TransformPayload =
  position :: "xyz option"
  rotation :: "xyz option"
  scale :: "xyz option"

record ViewportPayload =
  showGrid :: "bool option"
  showAxes :: "bool option"
  wireframe :: "bool option"
  projection :: "Projection option"

text \<open>
  \<^verbatim>\<open>AppAction\<close>: one constructor per member of the union of action types, with the
  payload each dispatch site sends. The union is closed, so the reducer's
  \<^verbatim>\<open>default\<close> branch has no action to apply to.
\<close>

datatype AppAction =
    ADD_OBJECT SceneObject
  | REMOVE_OBJECT string
  | SELECT_OBJECT string
  | UPDATE_TRANSFORM TransformPayload
  | RESET_TRANSFORM
  | UPDATE_VIEWPORT_SETTINGS ViewportPayload
  | TOGGLE_THEME
  | UPDATE_OBJECT_MATRIX string ref

definition initialTransform :: Transform where
  "initialTransform =
     \<lparr> Transform.position = \<lparr> x = 0, y = 0, z = 0 \<rparr>,
       rotation = \<lparr> x = 0, y = 0, z = 0 \<rparr>,
       scale = \<lparr> x = 1, y = 1, z = 1 \<rparr> \<rparr>"

definition initialViewportSettings :: ViewportSettings where
  "initialViewportSettings =
     \<lparr> ViewportSettings.showGrid = True, showAxes = True, wireframe = False,
       projection = perspective \<rparr>"

definition initialState :: AppState where
  "initialState =
     \<lparr> objects = [], selectedObjectId = None, transform = initialTransform,
       viewportSettings = initialViewportSettings, theme = dark \<rparr>"

text \<open>\<^verbatim>\<open>{ ...state.transform, ...action.payload }\<close>: the payload's keys win.\<close>

definition spreadTransform :: "Transform \<Rightarrow> TransformPayload \<Rightarrow> Transform" where
  "spreadTransform t p =
     \<lparr> Transform.position =
         (case TransformPayload.position p of None \<Rightarrow> Transform.position t | Some v \<Rightarrow> v),
       rotation =
         (case TransformPayload.rotation p of None \<Rightarrow> Transform.rotation t | Some v \<Rightarrow> v),
       scale =
         (case TransformPayload.scale p of None \<Rightarrow> Transform.scale t | Some v \<Rightarrow> v) \<rparr>"

text \<open>\<^verbatim>\<open>{ ...state.viewportSettings, ...action.payload }\<close>.\<close>

definition spreadViewport :: "ViewportSettings \<Rightarrow> ViewportPayload \<Rightarrow> ViewportSettings" where
  "spreadViewport v p =
     \<lparr> ViewportSettings.showGrid =
         (case ViewportPayload.showGrid p of None \<Rightarrow> ViewportSettings.showGrid v
          | Some b \<Rightarrow> b),
       showAxes =
         (case ViewportPayload.showAxes p of None \<Rightarrow> ViewportSettings.showAxes v
          | Some b \<Rightarrow> b),
       wireframe =
         (case ViewportPayload.wireframe p of None \<Rightarrow> ViewportSettings.wireframe v
          | Some b \<Rightarrow> b),
       projection =
         (case ViewportPayload.projection p of None \<Rightarrow> ViewportSettings.projection v
          | Some b \<Rightarrow> b) \<rparr>"

text \<open>
  The transform that \<^verbatim>\<open>SELECT_OBJECT\<close> builds from the object it found: the three
  components of each cached field, copied one by one.
\<close>

definition transformOf :: "SceneObject \<Rightarrow> Transform" where
  "transformOf selectedObject =
     \<lparr> Transform.position =
         \<lparr> x = x (SceneObject.position selectedObject),
           y = y (SceneObject.position selectedObject),
           z = z (SceneObject.position selectedObject) \<rparr>,
       rotation =
         \<lparr> x = x (SceneObject.rotation selectedObject),
           y = y (SceneObject.rotation selectedObject),
           z = z (SceneObject.rotation selectedObject) \<rparr>,
       scale =
         \<lparr> x = x (SceneObject.scale selectedObject),
           y = y (SceneObject.scale selectedObject),
           z = z (SceneObject.scale selectedObject) \<rparr> \<rparr>"

fun appReducer :: "AppState \<Rightarrow> AppAction \<Rightarrow> AppState" where
  "appReducer state (ADD_OBJECT payload) =
     state\<lparr> objects := objects state @ [payload] \<rparr>"
| "appReducer state (REMOVE_OBJECT payload) =
     state\<lparr> objects := filter (\<lambda>obj. id' obj \<noteq> payload) (objects state),
            selectedObjectId :=
              (if selectedObjectId state = Some payload then None
               else selectedObjectId state) \<rparr>"
| "appReducer state (SELECT_OBJECT payload) =
     (let selectedObject = find (\<lambda>obj. id' obj = payload) (objects state)
      in state\<lparr> selectedObjectId := Some payload,
               transform :=
                 (case selectedObject of
                    Some found \<Rightarrow> transformOf found
                  | None \<Rightarrow> initialTransform) \<rparr>)"
| "appReducer state (UPDATE_TRANSFORM payload) =
     state\<lparr> transform := spreadTransform (transform state) payload \<rparr>"
| "appReducer state RESET_TRANSFORM =
     state\<lparr> transform := initialTransform \<rparr>"
| "appReducer state (UPDATE_VIEWPORT_SETTINGS payload) =
     state\<lparr> viewportSettings := spreadViewport (viewportSettings state) payload \<rparr>"
| "appReducer state TOGGLE_THEME =
     state\<lparr> theme := (if theme state = light then dark else light) \<rparr>"
| "appReducer state (UPDATE_OBJECT_MATRIX ident newMatrix) =
     state\<lparr> objects :=
              map (\<lambda>obj. if id' obj = ident then obj\<lparr> SceneObject.matrix := newMatrix \<rparr>
                         else obj)
                (objects state) \<rparr>"

text \<open>
  \<^verbatim>\<open>dispatch\<close> hands one action to the reducer; a handler that dispatches several
  actions has them reduced in order.
\<close>

definition dispatchAll :: "AppState \<Rightarrow> AppAction list \<Rightarrow> AppState" where
  "dispatchAll state actions = foldl appReducer state actions"

section \<open>Viewport controls (components/ViewportControls.tsx)\<close>

text \<open>
  Every handler of a panel is a function of the state of the render it closes over; its
  value is the list of actions it dispatches, in order.
\<close>

definition toggleGrid :: "AppState \<Rightarrow> AppAction list" where
  "toggleGrid state =
     [UPDATE_VIEWPORT_SETTINGS
        \<lparr> ViewportPayload.showGrid =
            Some (\<not> ViewportSettings.showGrid (viewportSettings state)),
          showAxes = None, wireframe = None, projection = None \<rparr>]"

definition toggleAxes :: "AppState \<Rightarrow> AppAction list" where
  "toggleAxes state =
     [UPDATE_VIEWPORT_SETTINGS
        \<lparr> ViewportPayload.showGrid = None,
          showAxes = Some (\<not> ViewportSettings.showAxes (viewportSettings state)),
          wireframe = None, projection = None \<rparr>]"

definition toggleWireframe :: "AppState \<Rightarrow> AppAction list" where
  "toggleWireframe state =
     [UPDATE_VIEWPORT_SETTINGS
        \<lparr> ViewportPayload.showGrid = None, showAxes = None,
          wireframe = Some (\<not> ViewportSettings.wireframe (viewportSettings state)),
          projection = None \<rparr>]"

definition toggleProjection :: "AppState \<Rightarrow> AppAction list" where
  "toggleProjection state =
     [UPDATE_VIEWPORT_SETTINGS
        \<lparr> ViewportPayload.showGrid = None, showAxes = None, wireframe = None,
          projection =
            Some (if ViewportSettings.projection (viewportSettings state) = perspective
                  then orthographic else perspective) \<rparr>]"

text \<open>A click: the handler of the current render runs and its actions are reduced.\<close>

definition click :: "(AppState \<Rightarrow> AppAction list) \<Rightarrow> AppState \<Rightarrow> AppState" where
  "click handler state = dispatchAll state (handler state)"

section \<open>Transformation controls (components/TransformationControls.tsx)\<close>

text \<open>The axis names \<^verbatim>\<open>'x' | 'y' | 'z'\<close> and the keys of a transform.\<close>

datatype Axis = X | Y | Z

datatype TransformKey = Position | Rotation | Scale

text \<open>\<^verbatim>\<open>v[axis]\<close> and \<^verbatim>\<open>{ ...v, [axis]: n }\<close>.\<close>

fun getAxis :: "xyz \<Rightarrow> Axis \<Rightarrow> real" where
  "getAxis v X = x v"
| "getAxis v Y = y v"
| "getAxis v Z = z v"

fun setAxis :: "xyz \<Rightarrow> Axis \<Rightarrow> real \<Rightarrow> xyz" where
  "setAxis v X n = \<lparr> x = n, y = y v, z = z v \<rparr>"
| "setAxis v Y n = \<lparr> x = x v, y = n, z = z v \<rparr>"
| "setAxis v Z n = \<lparr> x = x v, y = y v, z = n \<rparr>"

text \<open>\<^verbatim>\<open>state.transform[type]\<close> and the payload \<^verbatim>\<open>{ [type]: v }\<close>.\<close>

fun getKey :: "Transform \<Rightarrow> TransformKey \<Rightarrow> xyz" where
  "getKey t Position = Transform.position t"
| "getKey t Rotation = Transform.rotation t"
| "getKey t Scale = Transform.scale t"

fun onlyKey :: "TransformKey \<Rightarrow> xyz \<Rightarrow> TransformPayload" where
  "onlyKey Position v = \<lparr> TransformPayload.position = Some v, rotation = None, scale = None \<rparr>"
| "onlyKey Rotation v = \<lparr> TransformPayload.position = None, rotation = Some v, scale = None \<rparr>"
| "onlyKey Scale v = \<lparr> TransformPayload.position = None, rotation = None, scale = Some v \<rparr>"

text \<open>
  The slider handlers receive the slider's array of thumb values and read
  \<^verbatim>\<open>value[0]\<close>. A slider reports one value per thumb; for an empty array JavaScript
  reads \<^verbatim>\<open>undefined\<close>, which is no number of this model, and \<open>[] ! 0\<close> is left
  unspecified in the same way.
\<close>

definition handlePositionChange :: "AppState \<Rightarrow> Axis \<Rightarrow> real list \<Rightarrow> AppAction list" where
  "handlePositionChange state axis value =
     [UPDATE_TRANSFORM
        \<lparr> TransformPayload.position =
            Some (setAxis (Transform.position (transform state)) axis (value ! 0)),
          rotation = None, scale = None \<rparr>]"

definition handleRotationChange :: "AppState \<Rightarrow> Axis \<Rightarrow> real list \<Rightarrow> AppAction list" where
  "handleRotationChange state axis value =
     [UPDATE_TRANSFORM
        \<lparr> TransformPayload.position = None,
          rotation =
            Some (setAxis (Transform.rotation (transform state)) axis
                    ((value ! 0 * pi) / 180)),
          scale = None \<rparr>]"

definition handleScaleChange :: "AppState \<Rightarrow> Axis \<Rightarrow> real list \<Rightarrow> AppAction list" where
  "handleScaleChange state axis value =
     [UPDATE_TRANSFORM
        \<lparr> TransformPayload.position = None, rotation = None,
          scale = Some (setAxis (Transform.scale (transform state)) axis (value ! 0)) \<rparr>]"

definition handleUniformScale :: "real list \<Rightarrow> AppAction list" where
  "handleUniformScale value =
     [UPDATE_TRANSFORM
        \<lparr> TransformPayload.position = None, rotation = None,
          scale = Some \<lparr> x = value ! 0, y = value ! 0, z = value ! 0 \<rparr> \<rparr>]"

definition handleReset :: "AppAction list" where
  "handleReset = [RESET_TRANSFORM]"

text \<open>
  \<^verbatim>\<open>parseFloat\<close> belongs to the language, not to the sources, and is a parameter of
  the handlers that call it: it maps the text of an input field to a number, or to
  \<^const>\<open>None\<close> for NaN, so that \<^verbatim>\<open>isNaN(numValue)\<close> is \<open>numValue = None\<close>.
\<close>

definition handleInputChange ::
  "(string \<Rightarrow> real option) \<Rightarrow> AppState \<Rightarrow> TransformKey \<Rightarrow> Axis \<Rightarrow> string \<Rightarrow> AppAction list"
where
  "handleInputChange parseFloat state type' axis value =
     (case parseFloat value of
        None \<Rightarrow> []
      | Some numValue \<Rightarrow>
          if type' = Rotation then
            [UPDATE_TRANSFORM
               (onlyKey type' (setAxis (getKey (transform state) type') axis
                                 ((numValue * pi) / 180)))]
          else
            [UPDATE_TRANSFORM
               (onlyKey type' (setAxis (getKey (transform state) type') axis numValue))])"

text \<open>
  What the rotation row shows for an axis. The slider is given the stored angle times
  180 over pi. The number field is given that value through \<^verbatim>\<open>toFixed(1)\<close>: the
  decimal string with one digit after the point that is nearest to the value, the
  larger of two equally near ones for a value that is not negative, and the same on the
  absolute value with a minus sign in front for a negative one; from \<open>10\<^sup>2\<^sup>1\<close> on
  it prints the number itself. \<open>toFixed1\<close> is the number that string denotes.
\<close>

definition toFixed1 :: "real \<Rightarrow> real" where
  "toFixed1 v =
     (if 10 ^ 21 \<le> \<bar>v\<bar> then v
      else if v < 0 then - (of_int \<lfloor>- v * 10 + 1 / 2\<rfloor> / 10)
      else of_int \<lfloor>v * 10 + 1 / 2\<rfloor> / 10)"

definition rotationSliderValue :: "AppState \<Rightarrow> Axis \<Rightarrow> real" where
  "rotationSliderValue state axis =
     (getAxis (Transform.rotation (transform state)) axis * 180) / pi"

definition rotationInputValue :: "AppState \<Rightarrow> Axis \<Rightarrow> real" where
  "rotationInputValue state axis =
     toFixed1 ((getAxis (Transform.rotation (transform state)) axis * 180) / pi)"

section \<open>The matrix operations of the rendering library\<close>

text \<open>
  Modelled from the spec: the rendering library's \<^verbatim>\<open>Matrix4\<close> (its methods
  \<^verbatim>\<open>identity\<close>, \<^verbatim>\<open>copy\<close>, \<^verbatim>\<open>clone\<close>, \<^verbatim>\<open>transpose\<close>, \<^verbatim>\<open>multiply\<close>,
  \<^verbatim>\<open>equals\<close>, \<^verbatim>\<open>determinant\<close> and \<^verbatim>\<open>invert\<close>) is not among the sources; the
  spec calls these the textbook linear-algebra formulas that the library provides.
  They are written here on the sixteen elements, \<open>n\<^sub>r\<^sub>c\<close> being the entry of row \<open>r\<close>
  and column \<open>c\<close>, that is \<^verbatim>\<open>elements[4 * (c - 1) + (r - 1)]\<close>. \<^verbatim>\<open>invert\<close> divides
  the adjugate by the determinant, and sets the matrix to zero when the determinant
  is zero.

  The formulas are written once, for any type of numbers that has the operations they
  use, every sum and product in the order of the library's expression. Over the
  doubles they are what the program computes, each operation rounding its result; over
  the real numbers they are the exact formulas. The test \<^verbatim>\<open>det === 0\<close> of
  \<^verbatim>\<open>invert\<close> is equality with zero: a determinant that is NaN is not zero.
\<close>

definition identity4 :: "'a::{zero,one} Matrix4" where
  "identity4 =
     \<lparr> e0 = 1, e1 = 0, e2 = 0, e3 = 0,
       e4 = 0, e5 = 1, e6 = 0, e7 = 0,
       e8 = 0, e9 = 0, e10 = 1, e11 = 0,
       e12 = 0, e13 = 0, e14 = 0, e15 = 1 \<rparr>"

definition zero4 :: "'a::zero Matrix4" where
  "zero4 =
     \<lparr> e0 = 0, e1 = 0, e2 = 0, e3 = 0,
       e4 = 0, e5 = 0, e6 = 0, e7 = 0,
       e8 = 0, e9 = 0, e10 = 0, e11 = 0,
       e12 = 0, e13 = 0, e14 = 0, e15 = 0 \<rparr>"

definition transpose4 :: "'a Matrix4 \<Rightarrow> 'a Matrix4" where
  "transpose4 m =
     \<lparr> e0 = e0 m, e1 = e4 m, e2 = e8 m, e3 = e12 m,
       e4 = e1 m, e5 = e5 m, e6 = e9 m, e7 = e13 m,
       e8 = e2 m, e9 = e6 m, e10 = e10 m, e11 = e14 m,
       e12 = e3 m, e13 = e7 m, e14 = e11 m, e15 = e15 m \<rparr>"

definition multiplyMatrices :: "'a::{plus,times} Matrix4 \<Rightarrow> 'a Matrix4 \<Rightarrow> 'a Matrix4" where
  "multiplyMatrices a b =
    (let a11 = e0 a; a12 = e4 a; a13 = e8 a; a14 = e12 a;
         a21 = e1 a; a22 = e5 a; a23 = e9 a; a24 = e13 a;
         a31 = e2 a; a32 = e6 a; a33 = e10 a; a34 = e14 a;
         a41 = e3 a; a42 = e7 a; a43 = e11 a; a44 = e15 a;
         b11 = e0 b; b12 = e4 b; b13 = e8 b; b14 = e12 b;
         b21 = e1 b; b22 = e5 b; b23 = e9 b; b24 = e13 b;
         b31 = e2 b; b32 = e6 b; b33 = e10 b; b34 = e14 b;
         b41 = e3 b; b42 = e7 b; b43 = e11 b; b44 = e15 b
     in \<lparr> e0 = a11 * b11 + a12 * b21 + a13 * b31 + a14 * b41,
          e1 = a21 * b11 + a22 * b21 + a23 * b31 + a24 * b41,
          e2 = a31 * b11 + a32 * b21 + a33 * b31 + a34 * b41,
          e3 = a41 * b11 + a42 * b21 + a43 * b31 + a44 * b41,
          e4 = a11 * b12 + a12 * b22 + a13 * b32 + a14 * b42,
          e5 = a21 * b12 + a22 * b22 + a23 * b32 + a24 * b42,
          e6 = a31 * b12 + a32 * b22 + a33 * b32 + a34 * b42,
          e7 = a41 * b12 + a42 * b22 + a43 * b32 + a44 * b42,
          e8 = a11 * b13 + a12 * b23 + a13 * b33 + a14 * b43,
          e9 = a21 * b13 + a22 * b23 + a23 * b33 + a24 * b43,
          e10 = a31 * b13 + a32 * b23 + a33 * b33 + a34 * b43,
          e11 = a41 * b13 + a42 * b23 + a43 * b33 + a44 * b43,
          e12 = a11 * b14 + a12 * b24 + a13 * b34 + a14 * b44,
          e13 = a21 * b14 + a22 * b24 + a23 * b34 + a24 * b44,
          e14 = a31 * b14 + a32 * b24 + a33 * b34 + a34 * b44,
          e15 = a41 * b14 + a42 * b24 + a43 * b34 + a44 * b44 \<rparr>)"

definition determinant :: "'a::{plus,minus,uminus,times} Matrix4 \<Rightarrow> 'a" where
  "determinant m =
    (let n11 = e0 m; n12 = e4 m; n13 = e8 m; n14 = e12 m;
         n21 = e1 m; n22 = e5 m; n23 = e9 m; n24 = e13 m;
         n31 = e2 m; n32 = e6 m; n33 = e10 m; n34 = e14 m;
         n41 = e3 m; n42 = e7 m; n43 = e11 m; n44 = e15 m
     in
      n41 * (n14 * n23 * n32 - n13 * n24 * n32 - n14 * n22 * n33
             + n12 * n24 * n33 + n13 * n22 * n34 - n12 * n23 * n34) +
      n42 * (n11 * n23 * n34 - n11 * n24 * n33 + n14 * n21 * n33
             - n13 * n21 * n34 + n13 * n24 * n31 - n14 * n23 * n31) +
      n43 * (n11 * n24 * n32 - n11 * n22 * n34 - n14 * n21 * n32
             + n12 * n21 * n34 + n14 * n22 * n31 - n12 * n24 * n31) +
      n44 * (- n13 * n22 * n31 - n11 * n23 * n32 + n11 * n22 * n33
             + n13 * n21 * n32 - n12 * n21 * n33 + n12 * n23 * n31))"

definition invert4 :: "'a::{zero,one,plus,minus,times,inverse} Matrix4 \<Rightarrow> 'a Matrix4" where
  "invert4 m =
    (let n11 = e0 m; n21 = e1 m; n31 = e2 m; n41 = e3 m;
         n12 = e4 m; n22 = e5 m; n32 = e6 m; n42 = e7 m;
         n13 = e8 m; n23 = e9 m; n33 = e10 m; n43 = e11 m;
         n14 = e12 m; n24 = e13 m; n34 = e14 m; n44 = e15 m;
         t11 = n23 * n34 * n42 - n24 * n33 * n42 + n24 * n32 * n43
               - n22 * n34 * n43 - n23 * n32 * n44 + n22 * n33 * n44;
         t12 = n14 * n33 * n42 - n13 * n34 * n42 - n14 * n32 * n43
               + n12 * n34 * n43 + n13 * n32 * n44 - n12 * n33 * n44;
         t13 = n13 * n24 * n42 - n14 * n23 * n42 + n14 * n22 * n43
               - n12 * n24 * n43 - n13 * n22 * n44 + n12 * n23 * n44;
         t14 = n14 * n23 * n32 - n13 * n24 * n32 - n14 * n22 * n33
               + n12 * n24 * n33 + n13 * n22 * n34 - n12 * n23 * n34;
         det = n11 * t11 + n21 * t12 + n31 * t13 + n41 * t14
     in if det = 0 then zero4
        else
          (let detInv = 1 / det
           in \<lparr> e0 = t11 * detInv,
                e1 = (n24 * n33 * n41 - n23 * n34 * n41 - n24 * n31 * n43
                      + n21 * n34 * n43 + n23 * n31 * n44 - n21 * n33 * n44) * detInv,
                e2 = (n22 * n34 * n41 - n24 * n32 * n41 + n24 * n31 * n42
                      - n21 * n34 * n42 - n22 * n31 * n44 + n21 * n32 * n44) * detInv,
                e3 = (n23 * n32 * n41 - n22 * n33 * n41 - n23 * n31 * n42
                      + n21 * n33 * n42 + n22 * n31 * n43 - n21 * n32 * n43) * detInv,
                e4 = t12 * detInv,
                e5 = (n13 * n34 * n41 - n14 * n33 * n41 + n14 * n31 * n43
                      - n11 * n34 * n43 - n13 * n31 * n44 + n11 * n33 * n44) * detInv,
                e6 = (n14 * n32 * n41 - n12 * n34 * n41 - n14 * n31 * n42
                      + n11 * n34 * n42 + n12 * n31 * n44 - n11 * n32 * n44) * detInv,
                e7 = (n12 * n33 * n41 - n13 * n32 * n41 + n13 * n31 * n42
                      - n11 * n33 * n42 - n12 * n31 * n43 + n11 * n32 * n43) * detInv,
                e8 = t13 * detInv,
                e9 = (n14 * n23 * n41 - n13 * n24 * n41 - n14 * n21 * n43
                      + n11 * n24 * n43 + n13 * n21 * n44 - n11 * n23 * n44) * detInv,
                e10 = (n12 * n24 * n41 - n14 * n22 * n41 + n14 * n21 * n42
                       - n11 * n24 * n42 - n12 * n21 * n44 + n11 * n22 * n44) * detInv,
                e11 = (n13 * n22 * n41 - n12 * n23 * n41 - n13 * n21 * n42
                       + n11 * n23 * n42 + n12 * n21 * n43 - n11 * n22 * n43) * detInv,
                e12 = t14 * detInv,
                e13 = (n13 * n24 * n31 - n14 * n23 * n31 + n14 * n21 * n33
                       - n11 * n24 * n33 - n13 * n21 * n34 + n11 * n23 * n34) * detInv,
                e14 = (n14 * n22 * n31 - n12 * n24 * n31 - n14 * n21 * n32
                       + n11 * n24 * n32 + n12 * n21 * n34 - n11 * n22 * n34) * detInv,
                e15 = (n12 * n23 * n31 - n13 * n22 * n31 + n13 * n21 * n32
                       - n11 * n23 * n32 - n12 * n21 * n33 + n11 * n22 * n33) * detInv \<rparr>))"

text \<open>
  The entry in a row and a column of a matrix, through the index that \<^verbatim>\<open>formatMatrix\<close>
  of the matrix panel computes: \<^verbatim>\<open>elements[col * 4 + row]\<close>, rows and columns
  counted from 0.
\<close>

definition elements :: "'a Matrix4 \<Rightarrow> 'a list" where
  "elements m =
     [e0 m, e1 m, e2 m, e3 m, e4 m, e5 m, e6 m, e7 m,
      e8 m, e9 m, e10 m, e11 m, e12 m, e13 m, e14 m, e15 m]"

definition entry :: "'a Matrix4 \<Rightarrow> nat \<Rightarrow> nat \<Rightarrow> 'a" where
  "entry m row col = elements m ! (col * 4 + row)"

text \<open>
  The methods, on a matrix object of the store. A constructor call allocates an identity
  matrix at the next unused address; a method that the library lets return \<^verbatim>\<open>this\<close>
  returns the store it has written to. \<^verbatim>\<open>equals\<close> compares the sixteen elements
  with \<^verbatim>\<open>!==\<close> and is false at the first pair that differs.
\<close>

definition Matrix4_new :: "Store \<Rightarrow> ref \<times> Store" where
  "Matrix4_new s =
     (nextRef s, s\<lparr> matrix4s := (matrix4s s)(nextRef s := identity4), nextRef := Suc (nextRef s) \<rparr>)"

definition Matrix4_identity :: "Store \<Rightarrow> ref \<Rightarrow> Store" where
  "Matrix4_identity s this = s\<lparr> matrix4s := (matrix4s s)(this := identity4) \<rparr>"

definition Matrix4_copy :: "Store \<Rightarrow> ref \<Rightarrow> ref \<Rightarrow> Store" where
  "Matrix4_copy s this m = s\<lparr> matrix4s := (matrix4s s)(this := matrix4s s m) \<rparr>"

definition Matrix4_clone :: "Store \<Rightarrow> ref \<Rightarrow> ref \<times> Store" where
  "Matrix4_clone s this = (let (r, s1) = Matrix4_new s in (r, Matrix4_copy s1 r this))"

definition Matrix4_transpose :: "Store \<Rightarrow> ref \<Rightarrow> Store" where
  "Matrix4_transpose s this =
     s\<lparr> matrix4s := (matrix4s s)(this := transpose4 (matrix4s s this)) \<rparr>"

definition Matrix4_multiply :: "Store \<Rightarrow> ref \<Rightarrow> ref \<Rightarrow> Store" where
  "Matrix4_multiply s this m =
     s\<lparr> matrix4s :=
         (matrix4s s)(this := multiplyMatrices (matrix4s s this) (matrix4s s m)) \<rparr>"

definition Matrix4_equals :: "Store \<Rightarrow> ref \<Rightarrow> ref \<Rightarrow> bool" where
  "Matrix4_equals s this m =
     list_all2 strictEquals (elements (matrix4s s this)) (elements (matrix4s s m))"

definition Matrix4_determinant :: "Store \<Rightarrow> ref \<Rightarrow> double" where
  "Matrix4_determinant s this = determinant (matrix4s s this)"

definition Matrix4_invert :: "Store \<Rightarrow> ref \<Rightarrow> Store" where
  "Matrix4_invert s this =
     s\<lparr> matrix4s := (matrix4s s)(this := invert4 (matrix4s s this)) \<rparr>"

section \<open>Matrix panel (components/MatrixPanel.tsx, components/AdvancedMatrixFeatures.tsx)\<close>

text \<open>
  A handler of the matrix panel writes to objects of the store, dispatches actions and
  raises toasts; its value is the store it leaves, the actions and the toasts, in order.
\<close>

datatype Toast = toast_success string | toast_error string

type_synonym Effects = "Store \<times> AppAction list \<times> Toast list"

text \<open>
  \<^verbatim>\<open>state.objects.find(obj => obj.id === state.selectedObjectId)\<close>: no object has the
  id \<^verbatim>\<open>null\<close>.
\<close>

definition selectedObject :: "AppState \<Rightarrow> SceneObject option" where
  "selectedObject state =
     (case selectedObjectId state of
        None \<Rightarrow> None
      | Some ident \<Rightarrow> find (\<lambda>obj. id' obj = ident) (objects state))"

definition getCurrentMatrix :: "Store \<Rightarrow> AppState \<Rightarrow> ref \<times> Store" where
  "getCurrentMatrix s state =
     (case selectedObject state of
        Some obj \<Rightarrow> (SceneObject.matrix obj, s)
      | None \<Rightarrow> (let (r, s1) = Matrix4_new s in (r, Matrix4_identity s1 r)))"

text \<open>
  The payload that the matrix handlers dispatch after rewriting a mesh matrix: the three
  components of a position, of an Euler rotation and of a scale.
\<close>

definition fullPayload :: "xyz \<Rightarrow> Euler \<Rightarrow> xyz \<Rightarrow> TransformPayload" where
  "fullPayload p e sc =
     \<lparr> TransformPayload.position = Some \<lparr> x = x p, y = y p, z = z p \<rparr>,
       rotation = Some \<lparr> x = x e, y = y e, z = z e \<rparr>,
       scale = Some \<lparr> x = x sc, y = y sc, z = z sc \<rparr> \<rparr>"

text \<open>
  \<^verbatim>\<open>selectedObject.mesh.matrixAutoUpdate = flag\<close>. The call
  \<^verbatim>\<open>updateMatrixWorld(true)\<close> that follows it in the handlers recomputes the world
  matrix of the mesh, which is not a field of this model, and leaves the local matrix
  alone because the flag has just been cleared.
\<close>

definition setMatrixAutoUpdate :: "Store \<Rightarrow> ref \<Rightarrow> bool \<Rightarrow> Store" where
  "setMatrixAutoUpdate s meshRef flag =
     s\<lparr> meshes := (meshes s)(meshRef := (meshes s meshRef)\<lparr> matrixAutoUpdate := flag \<rparr>) \<rparr>"

definition applyIdentityMatrix :: "Store \<Rightarrow> AppState \<Rightarrow> Effects" where
  "applyIdentityMatrix s state =
     (case selectedObject state of
        None \<Rightarrow> (s, [], [])
      | Some obj \<Rightarrow>
          (let (identityMatrix, s1) = Matrix4_new s;
               s2 = Matrix4_identity s1 identityMatrix;
               s3 = Matrix4_copy s2 (Mesh.matrix (meshes s2 (mesh obj))) identityMatrix;
               s4 = setMatrixAutoUpdate s3 (mesh obj) False
           in (s4,
               [UPDATE_TRANSFORM
                  \<lparr> TransformPayload.position = Some \<lparr> x = 0, y = 0, z = 0 \<rparr>,
                    rotation = Some \<lparr> x = 0, y = 0, z = 0 \<rparr>,
                    scale = Some \<lparr> x = 1, y = 1, z = 1 \<rparr> \<rparr>],
               [toast_success ''Identity matrix applied''])))"

text \<open>
  \<^verbatim>\<open>decompose\<close> and \<^verbatim>\<open>Euler.setFromQuaternion\<close> of the library take square
  roots and inverse trigonometric functions and divide by lengths that may be zero;
  the handlers only pass their results on, so the two functions are parameters:
  \<open>decompose m\<close> is the position, the quaternion and the scale that the library
  writes for the matrix \<open>m\<close>. Their results enter the transform state, whose numbers
  are real numbers here; what the library returns for a matrix that holds NaN or an
  infinity is not described. The handler inverts a fresh copy of the mesh matrix and
  then asks whether the determinant of the result is \<^verbatim>\<open>=== 0\<close>.
\<close>

definition invertMatrix ::
  "(double Matrix4 \<Rightarrow> xyz \<times> Quaternion \<times> xyz) \<Rightarrow> (Quaternion \<Rightarrow> Euler) \<Rightarrow> Store \<Rightarrow> AppState
     \<Rightarrow> Effects"
where
  "invertMatrix decompose setFromQuaternion s state =
     (case selectedObject state of
        None \<Rightarrow> (s, [], [])
      | Some obj \<Rightarrow>
          (let (inverseMatrix, s1) = Matrix4_new s;
               s2 = Matrix4_copy s1 inverseMatrix (Mesh.matrix (meshes s1 (mesh obj)));
               s3 = Matrix4_invert s2 inverseMatrix
           in if strictEquals (Matrix4_determinant s3 inverseMatrix) 0 then
                (s3, [], [toast_error ''Matrix is not invertible (determinant is 0)''])
              else
                (let s4 = Matrix4_copy s3 (Mesh.matrix (meshes s3 (mesh obj))) inverseMatrix;
                     s5 = setMatrixAutoUpdate s4 (mesh obj) False;
                     (position, quaternion, scale) = decompose (matrix4s s5 inverseMatrix);
                     euler = setFromQuaternion quaternion
                 in (s5,
                     [UPDATE_TRANSFORM (fullPayload position euler scale)],
                     [toast_success ''Matrix inverted'']))))"

text \<open>
  The Invert Matrix button is disabled without a selected object, and while the
  determinant of the current matrix (the cached matrix of the selected object) is below
  the double nearest to 0.001 in absolute value; a disabled button does not call its
  handler. \<^verbatim>\<open>Math.abs(d) < 0.001\<close> is false when \<open>d\<close> is NaN or an infinity.
\<close>

definition invertMatrixDisabled :: "Store \<Rightarrow> AppState \<Rightarrow> bool" where
  "invertMatrixDisabled s state =
     (let (currentMatrix, s1) = getCurrentMatrix s state
      in selectedObject state = None \<or>
         \<bar>Matrix4_determinant s1 currentMatrix\<bar> < round64 (1 / 1000))"

text \<open>
  The orthogonality check, once as the helper of the advanced features and once as the
  panel computes it for its current matrix.
\<close>

definition checkIfOrthogonal :: "Store \<Rightarrow> ref \<Rightarrow> bool \<times> Store" where
  "checkIfOrthogonal s matrix' =
     (let m = matrix';
          (mT, s1) = Matrix4_clone s m;
          s2 = Matrix4_transpose s1 mT;
          (identityRef, s3) = Matrix4_new s2;
          s4 = Matrix4_identity s3 identityRef;
          s5 = Matrix4_multiply s4 mT m
      in (Matrix4_equals s5 mT identityRef, s5))"

definition isOrthogonal :: "Store \<Rightarrow> AppState \<Rightarrow> bool \<times> Store" where
  "isOrthogonal s state =
     (let (currentMatrix, s0) = getCurrentMatrix s state;
          m = currentMatrix;
          (mT, s1) = Matrix4_clone s0 m;
          s2 = Matrix4_transpose s1 mT;
          (identityRef, s3) = Matrix4_new s2;
          s4 = Matrix4_identity s3 identityRef;
          s5 = Matrix4_multiply s4 mT m
      in (Matrix4_equals s5 mT identityRef, s5))"

text \<open>
  The custom matrix is an array of numbers in the state of the panel. Assigning to an
  index of a JavaScript array replaces the element there, and for an index from the
  length on it extends the array, leaving holes below the index; a hole is
  \<^const>\<open>None\<close>. The handler's value is the array the panel holds afterwards.
\<close>

definition assignIndex :: "'a option list \<Rightarrow> nat \<Rightarrow> 'a \<Rightarrow> 'a option list" where
  "assignIndex xs i v =
     (if i < length xs then xs[i := Some v]
      else xs @ replicate (i - length xs) None @ [Some v])"

definition handleCustomMatrixChange ::
  "(string \<Rightarrow> real option) \<Rightarrow> real option list \<Rightarrow> nat \<Rightarrow> string \<Rightarrow> real option list"
where
  "handleCustomMatrixChange parseFloat customMatrix index value =
     (case parseFloat value of
        Some newValue \<Rightarrow> (let newMatrix = customMatrix in assignIndex newMatrix index newValue)
      | None \<Rightarrow> customMatrix)"

section \<open>Writes outside the reducer (components/ThreeJSViewport.tsx, components/ObjectHierarchy.tsx)\<close>

text \<open>
  \<^verbatim>\<open>mesh.updateMatrix()\<close> of the rendering library composes the local matrix of the
  mesh from its position, its rotation and its scale. The composition takes sines and
  cosines of the angles, so it is a parameter, like the decomposition above.
\<close>

definition updateMatrix ::
  "(xyz \<Rightarrow> Euler \<Rightarrow> xyz \<Rightarrow> double Matrix4) \<Rightarrow> Store \<Rightarrow> ref \<Rightarrow> Store"
where
  "updateMatrix compose s meshRef =
     (let this = meshes s meshRef
      in s\<lparr> matrix4s :=
             (matrix4s s)(Mesh.matrix this :=
                compose (Mesh.position this) (Mesh.rotation this) (Mesh.scale this)) \<rparr>)"

text \<open>
  A write to fields of the object that \<^verbatim>\<open>find\<close> returned: the first element of the
  list that satisfies the predicate is the one that changes.
\<close>

fun updateFound :: "('a \<Rightarrow> bool) \<Rightarrow> ('a \<Rightarrow> 'a) \<Rightarrow> 'a list \<Rightarrow> 'a list" where
  "updateFound p f [] = []"
| "updateFound p f (a # as) = (if p a then f a # as else a # updateFound p f as)"

text \<open>
  The effect of the viewport that runs after a render in which the transform, the
  selected id or the objects list has changed. It returns at once when the id is
  \<^verbatim>\<open>null\<close> or the empty string, and when no object has the id. Otherwise it sets the
  position, the angles and the scale of the mesh from \<^verbatim>\<open>state.transform\<close>, lets the
  mesh recompute its matrix, and copies the four back into the cached fields of the
  selected object, in place. It dispatches no action: its value is the store and the
  state that it leaves.
\<close>

definition applyTransformEffect ::
  "(xyz \<Rightarrow> Euler \<Rightarrow> xyz \<Rightarrow> double Matrix4) \<Rightarrow> Store \<Rightarrow> AppState \<Rightarrow> Store \<times> AppState"
where
  "applyTransformEffect compose s state =
     (case selectedObjectId state of
        None \<Rightarrow> (s, state)
      | Some ident \<Rightarrow>
          if ident = [] then (s, state)
          else
            (case find (\<lambda>a. id' a = ident) (objects state) of
               None \<Rightarrow> (s, state)
             | Some obj \<Rightarrow>
                 (let t = transform state;
                      meshRef = mesh obj;
                      this = meshes s meshRef;
                      moved = this
                        \<lparr> Mesh.position := Transform.position t,
                          Mesh.rotation :=
                            \<lparr> x = x (Transform.rotation t), y = y (Transform.rotation t),
                              z = z (Transform.rotation t), order = order (Mesh.rotation this) \<rparr>,
                          Mesh.scale := Transform.scale t \<rparr>;
                      s1 = s\<lparr> meshes := (meshes s)(meshRef := moved) \<rparr>;
                      s2 = updateMatrix compose s1 meshRef;
                      s3 = Matrix4_copy s2 (SceneObject.matrix obj)
                             (Mesh.matrix (meshes s2 meshRef))
                  in (s3,
                      state\<lparr> objects :=
                        updateFound (\<lambda>a. id' a = ident)
                          (\<lambda>a. a\<lparr> SceneObject.position := Mesh.position moved,
                                      SceneObject.rotation := Mesh.rotation moved,
                                      SceneObject.scale := Mesh.scale moved \<rparr>)
                          (objects state) \<rparr>))))"

text \<open>
  The eye button of a row of the object list: \<^verbatim>\<open>obj.mesh.visible = !obj.mesh.visible\<close>
  on the object that \<^verbatim>\<open>find\<close> returns for the id, and nothing else.
\<close>

definition toggleObjectVisibility :: "Store \<Rightarrow> AppState \<Rightarrow> string \<Rightarrow> Store" where
  "toggleObjectVisibility s state ident =
     (case find (\<lambda>obj. id' obj = ident) (objects state) of
        None \<Rightarrow> s
      | Some obj \<Rightarrow>
          s\<lparr> meshes :=
               (meshes s)(mesh obj :=
                  (meshes s (mesh obj))\<lparr> visible := \<not> visible (meshes s (mesh obj)) \<rparr>) \<rparr>)"

section \<open>An example scene\<close>

text \<open>
  One cube as \<^verbatim>\<open>addObject\<close> builds it: a mesh with its local matrix at address 0 and
  the cached copy of that matrix at address 1. The store is given for any content of
  the mesh matrix; in the second store the cached copy holds that content too, as it
  does once the effect of the viewport has run.
\<close>

definition exampleObject :: SceneObject where
  "exampleObject =
     \<lparr> id' = ''cube_1700000000000'', name = ''Cube 1'', type = cube, mesh = 0,
       position = \<lparr> x = 1, y = - 2, z = 1 / 2 \<rparr>,
       rotation = \<lparr> x = 0, y = pi / 2, z = 0, order = XYZ \<rparr>,
       scale = \<lparr> x = 1, y = 1, z = 1 \<rparr>,
       matrix = 1, color = ''#ff6b6b'' \<rparr>"

definition exampleState :: AppState where
  "exampleState =
     \<lparr> objects = [exampleObject], selectedObjectId = Some ''cube_1700000000000'',
       transform = transformOf exampleObject,
       viewportSettings = initialViewportSettings, theme = dark \<rparr>"

definition exampleStore :: "double Matrix4 \<Rightarrow> Store" where
  "exampleStore meshMatrix =
     \<lparr> matrix4s = (\<lambda>r. identity4)(0 := meshMatrix),
       meshes =
         (\<lambda>r. \<lparr> Mesh.matrix = 0, matrixAutoUpdate = True, visible = True,
                position = \<lparr> x = 1, y = - 2, z = 1 / 2 \<rparr>,
                rotation = \<lparr> x = 0, y = pi / 2, z = 0, order = XYZ \<rparr>,
                scale = \<lparr> x = 1, y = 1, z = 1 \<rparr> \<rparr>),
       nextRef = 2 \<rparr>"

definition syncedStore :: "double Matrix4 \<Rightarrow> Store" where
  "syncedStore meshMatrix =
     (exampleStore meshMatrix)
       \<lparr> matrix4s := (matrix4s (exampleStore meshMatrix))(1 := meshMatrix) \<rparr>"

text \<open>
  A matrix of real numbers as the matrix of doubles that holds them, with no rounding,
  and as the one that holds the doubles nearest to them.
\<close>

definition mapMatrix4 :: "('a \<Rightarrow> 'b) \<Rightarrow> 'a Matrix4 \<Rightarrow> 'b Matrix4" where
  "mapMatrix4 f m =
     \<lparr> e0 = f (e0 m), e1 = f (e1 m), e2 = f (e2 m), e3 = f (e3 m),
       e4 = f (e4 m), e5 = f (e5 m), e6 = f (e6 m), e7 = f (e7 m),
       e8 = f (e8 m), e9 = f (e9 m), e10 = f (e10 m), e11 = f (e11 m),
       e12 = f (e12 m), e13 = f (e13 m), e14 = f (e14 m), e15 = f (e15 m) \<rparr>"

text \<open>
  The matrix that scales by \<open>k\<close> along every axis: what the mesh composes from a position
  and a rotation of zero and the scale \<open>(k, k, k)\<close>.
\<close>

definition uniformScale :: "'a::{zero,one} \<Rightarrow> 'a Matrix4" where
  "uniformScale k =
     \<lparr> e0 = k, e1 = 0, e2 = 0, e3 = 0,
       e4 = 0, e5 = k, e6 = 0, e7 = 0,
       e8 = 0, e9 = 0, e10 = k, e11 = 0,
       e12 = 0, e13 = 0, e14 = 0, e15 = 1 \<rparr>"

definition scaleTwo :: "double Matrix4" where
  "scaleTwo = uniformScale (Finite 2)"

text \<open>
  A scale that is a double, about \<open>2.29 \<times> 10\<^sup>1\<^sup>0\<^sup>5\<close>, and whose cube is beyond the
  doubles.
\<close>

definition big :: real where
  "big = 2 ^ 350"

definition hugeScale :: "double Matrix4" where
  "hugeScale = uniformScale (Finite big)"

text \<open>
  The matrix of doubles with \<open>NaN\<close> in the last place of the diagonal and zero elsewhere.
\<close>

definition zeroAndNaN :: "double Matrix4" where
  "zeroAndNaN = zero4\<lparr> e15 := NaN \<rparr>"

text \<open>
  The identity with \<open>2\<^sup>-\<^sup>3\<^sup>0\<close> and \<open>- 2\<^sup>-\<^sup>3\<^sup>0\<close> next to the first two places of the diagonal:
  close to the rotation about the z axis by that angle, but with columns of length
  \<open>sqrt (1 + 2\<^sup>-\<^sup>6\<^sup>0)\<close>.
\<close>

definition tilt :: real where
  "tilt = 1 / 2 ^ 30"

definition nearRotation :: "real Matrix4" where
  "nearRotation =
     \<lparr> e0 = 1, e1 = - tilt, e2 = 0, e3 = 0,
       e4 = tilt, e5 = 1, e6 = 0, e7 = 0,
       e8 = 0, e9 = 0, e10 = 1, e11 = 0,
       e12 = 0, e13 = 0, e14 = 0, e15 = 1 \<rparr>"

text \<open>A parser that knows the empty text and two decimal literals.\<close>

definition parseSample :: "string \<Rightarrow> real option" where
  "parseSample t =
     (if t = ''90'' then Some 90 else if t = ''0.04'' then Some (4 / 100) else None)"

section \<open>The reducer\<close>

lemma find_id_present:
  "ident \<in> id' ` set objs \<Longrightarrow>
     \<exists>found. find (\<lambda>obj. id' obj = ident) objs = Some found \<and>
             found \<in> set objs \<and> id' found = ident"
  by (induction objs) auto

lemma find_id_absent:
  "ident \<notin> id' ` set objs \<Longrightarrow> find (\<lambda>obj. id' obj = ident) objs = None"
  by (induction objs) auto

text \<open>
  Claim C1. For every state and every object present in \<^verbatim>\<open>state.objects\<close>,
  dispatching \<^verbatim>\<open>SELECT_OBJECT\<close> with the id of that object sets
  \<^verbatim>\<open>selectedObjectId\<close> to that id, and sets the position, the rotation and the
  scale of \<^verbatim>\<open>state.transform\<close> componentwise to the cached position, rotation and
  scale of the object carrying that id: the first one in the list, which is the object
  itself whenever no other object of the list has its id.
\<close>

theorem select_object_present:
  assumes "obj \<in> set (objects state)"
  shows "selectedObjectId (appReducer state (SELECT_OBJECT (id' obj))) = Some (id' obj) \<and>
    (\<exists>found.
       find (\<lambda>other. id' other = id' obj) (objects state) = Some found \<and>
       found \<in> set (objects state) \<and> id' found = id' obj \<and>
       ((\<forall>other \<in> set (objects state). id' other = id' obj \<longrightarrow> other = obj)
          \<longrightarrow> found = obj) \<and>
       x (Transform.position (transform (appReducer state (SELECT_OBJECT (id' obj)))))
         = x (SceneObject.position found) \<and>
       y (Transform.position (transform (appReducer state (SELECT_OBJECT (id' obj)))))
         = y (SceneObject.position found) \<and>
       z (Transform.position (transform (appReducer state (SELECT_OBJECT (id' obj)))))
         = z (SceneObject.position found) \<and>
       x (Transform.rotation (transform (appReducer state (SELECT_OBJECT (id' obj)))))
         = x (SceneObject.rotation found) \<and>
       y (Transform.rotation (transform (appReducer state (SELECT_OBJECT (id' obj)))))
         = y (SceneObject.rotation found) \<and>
       z (Transform.rotation (transform (appReducer state (SELECT_OBJECT (id' obj)))))
         = z (SceneObject.rotation found) \<and>
       x (Transform.scale (transform (appReducer state (SELECT_OBJECT (id' obj)))))
         = x (SceneObject.scale found) \<and>
       y (Transform.scale (transform (appReducer state (SELECT_OBJECT (id' obj)))))
         = y (SceneObject.scale found) \<and>
       z (Transform.scale (transform (appReducer state (SELECT_OBJECT (id' obj)))))
         = z (SceneObject.scale found))"
proof -
  from assms have "id' obj \<in> id' ` set (objects state)"
    by blast
  then obtain found
    where hit: "find (\<lambda>other. id' other = id' obj) (objects state) = Some found"
      and member: "found \<in> set (objects state)"
      and same: "id' found = id' obj"
    using find_id_present by blast
  show ?thesis
    using hit member same by (auto simp: Let_def transformOf_def)
qed

theorem select_object_present_witness:
  "selectedObjectId
     (appReducer (initialState\<lparr> objects := [exampleObject] \<rparr>)
        (SELECT_OBJECT ''cube_1700000000000'')) = Some ''cube_1700000000000'' \<and>
   transform
     (appReducer (initialState\<lparr> objects := [exampleObject] \<rparr>)
        (SELECT_OBJECT ''cube_1700000000000'')) =
     \<lparr> Transform.position = \<lparr> x = 1, y = - 2, z = 1 / 2 \<rparr>,
       rotation = \<lparr> x = 0, y = pi / 2, z = 0 \<rparr>,
       scale = \<lparr> x = 1, y = 1, z = 1 \<rparr> \<rparr>"
proof -
  have present: "exampleObject \<in> set (objects (initialState\<lparr> objects := [exampleObject] \<rparr>))"
    by simp
  have ident: "id' exampleObject = ''cube_1700000000000''"
    by (simp add: exampleObject_def)
  from select_object_present [OF present]
  show ?thesis
    by (simp add: ident initialState_def Let_def transformOf_def exampleObject_def)
qed

text \<open>
  Claim C5. For every state and every id, dispatching \<^verbatim>\<open>REMOVE_OBJECT\<close> with that id
  yields the objects list with every object of that id removed and the remaining
  objects in their order; \<^verbatim>\<open>selectedObjectId\<close> becomes \<^verbatim>\<open>null\<close> if it was the
  removed id and is unchanged otherwise; the transform, the viewport settings and the
  theme are unchanged.
\<close>

theorem remove_object_effect:
  "objects (appReducer state (REMOVE_OBJECT ident))
     = filter (\<lambda>obj. id' obj \<noteq> ident) (objects state) \<and>
   subseq (objects (appReducer state (REMOVE_OBJECT ident))) (objects state) \<and>
   (\<forall>obj. obj \<in> set (objects (appReducer state (REMOVE_OBJECT ident)))
           = (obj \<in> set (objects state) \<and> id' obj \<noteq> ident)) \<and>
   selectedObjectId (appReducer state (REMOVE_OBJECT ident)) =
     (if selectedObjectId state = Some ident then None else selectedObjectId state) \<and>
   transform (appReducer state (REMOVE_OBJECT ident)) = transform state \<and>
   viewportSettings (appReducer state (REMOVE_OBJECT ident)) = viewportSettings state \<and>
   theme (appReducer state (REMOVE_OBJECT ident)) = theme state"
  by auto

theorem remove_object_effect_witness:
  "objects (appReducer exampleState (REMOVE_OBJECT ''cube_1700000000000'')) = [] \<and>
   selectedObjectId (appReducer exampleState (REMOVE_OBJECT ''cube_1700000000000'')) = None \<and>
   transform (appReducer exampleState (REMOVE_OBJECT ''cube_1700000000000''))
     = transformOf exampleObject"
  using remove_object_effect [of exampleState "''cube_1700000000000''"]
  by (simp add: exampleState_def exampleObject_def)

text \<open>
  Claim C6. If \<^verbatim>\<open>SELECT_OBJECT\<close> is dispatched with an id that no object of
  \<^verbatim>\<open>state.objects\<close> has, the reducer still sets \<^verbatim>\<open>selectedObjectId\<close> to that id,
  not to \<^verbatim>\<open>null\<close>, and resets the transform to position (0,0,0), rotation (0,0,0)
  and scale (1,1,1); afterwards \<^verbatim>\<open>selectedObjectId\<close> names an object that does not
  exist.
\<close>

theorem select_object_absent:
  assumes "ident \<notin> id' ` set (objects state)"
  shows "selectedObjectId (appReducer state (SELECT_OBJECT ident)) = Some ident \<and>
    transform (appReducer state (SELECT_OBJECT ident)) = initialTransform \<and>
    Transform.position (transform (appReducer state (SELECT_OBJECT ident)))
      = \<lparr> x = 0, y = 0, z = 0 \<rparr> \<and>
    Transform.rotation (transform (appReducer state (SELECT_OBJECT ident)))
      = \<lparr> x = 0, y = 0, z = 0 \<rparr> \<and>
    Transform.scale (transform (appReducer state (SELECT_OBJECT ident)))
      = \<lparr> x = 1, y = 1, z = 1 \<rparr> \<and>
    objects (appReducer state (SELECT_OBJECT ident)) = objects state \<and>
    selectedObject (appReducer state (SELECT_OBJECT ident)) = None"
  using find_id_absent [OF assms]
  by (simp add: Let_def initialTransform_def selectedObject_def)

theorem select_object_absent_witness:
  "selectedObjectId (appReducer exampleState (SELECT_OBJECT ''sphere_1'')) = Some ''sphere_1'' \<and>
   transform (appReducer exampleState (SELECT_OBJECT ''sphere_1'')) = initialTransform \<and>
   selectedObject (appReducer exampleState (SELECT_OBJECT ''sphere_1'')) = None"
proof -
  have absent: "''sphere_1'' \<notin> id' ` set (objects exampleState)"
    by (simp add: exampleState_def exampleObject_def)
  from select_object_absent [OF absent]
  show ?thesis
    by (simp del: appReducer.simps)
qed

text \<open>
  Claim C9, as it holds. The actions \<^verbatim>\<open>SELECT_OBJECT\<close>, \<^verbatim>\<open>UPDATE_TRANSFORM\<close>,
  \<^verbatim>\<open>RESET_TRANSFORM\<close>, \<^verbatim>\<open>UPDATE_VIEWPORT_SETTINGS\<close> and \<^verbatim>\<open>TOGGLE_THEME\<close> leave the
  objects list unchanged: for every state and every action of one of these five types,
  the reducer returns a state whose objects field equals that of the input state.
\<close>

theorem reducer_keeps_objects:
  "objects (appReducer state (SELECT_OBJECT ident)) = objects state \<and>
   objects (appReducer state (UPDATE_TRANSFORM transformPayload)) = objects state \<and>
   objects (appReducer state RESET_TRANSFORM) = objects state \<and>
   objects (appReducer state (UPDATE_VIEWPORT_SETTINGS viewportPayload)) = objects state \<and>
   objects (appReducer state TOGGLE_THEME) = objects state"
  by (simp add: Let_def)

theorem reducer_keeps_objects_witness:
  "objects (appReducer exampleState (SELECT_OBJECT ''sphere_1'')) = [exampleObject] \<and>
   objects (appReducer exampleState RESET_TRANSFORM) = [exampleObject] \<and>
   objects (appReducer exampleState TOGGLE_THEME) = [exampleObject]"
  using reducer_keeps_objects [of exampleState "''sphere_1''"]
  by (simp add: exampleState_def)

text \<open>
  Claim C9, its first clause: not every change of the state goes through the reducer.
  After \<^verbatim>\<open>RESET_TRANSFORM\<close> on the example scene the reducer has left the objects list as
  it was; the effect of the viewport that runs next writes the new transform into the
  cached position, rotation and scale of the selected element of that list, whatever
  the mesh composes its matrix to, and dispatches nothing. The eye button writes the
  visibility flag of the mesh of a listed object, and the custom matrix is state of the
  matrix panel that its handler replaces.
\<close>

theorem writes_outside_reducer:
  "objects (appReducer exampleState RESET_TRANSFORM) = [exampleObject] \<and>
   (\<forall>compose.
      objects (snd (applyTransformEffect compose (exampleStore scaleTwo)
                      (appReducer exampleState RESET_TRANSFORM)))
        = [exampleObject
             \<lparr> SceneObject.position := \<lparr> x = 0, y = 0, z = 0 \<rparr>,
               SceneObject.rotation := \<lparr> x = 0, y = 0, z = 0, order = XYZ \<rparr>,
               SceneObject.scale := \<lparr> x = 1, y = 1, z = 1 \<rparr> \<rparr>]) \<and>
   (\<forall>compose.
      objects (snd (applyTransformEffect compose (exampleStore scaleTwo)
                      (appReducer exampleState RESET_TRANSFORM)))
        \<noteq> objects (appReducer exampleState RESET_TRANSFORM)) \<and>
   visible (meshes (exampleStore scaleTwo) 0) \<and>
   \<not> visible (meshes (toggleObjectVisibility (exampleStore scaleTwo) exampleState
                         ''cube_1700000000000'') 0) \<and>
   handleCustomMatrixChange parseSample [] 0 ''90'' = [Some 90]"
  by (simp add: exampleState_def exampleObject_def exampleStore_def applyTransformEffect_def
        updateMatrix_def Matrix4_copy_def initialTransform_def toggleObjectVisibility_def
        handleCustomMatrixChange_def parseSample_def assignIndex_def Let_def)

section \<open>The viewport toggles\<close>

text \<open>
  Claim C7. Each of the grid, axes, wireframe and projection toggles changes only its
  own field of the viewport settings, all other fields of the viewport settings and of
  the state staying as they are; for every state, the same toggle applied twice, each
  click on the render of the state before it, restores the state and with it the
  viewport settings; the projection toggle alternates between \<^verbatim>\<open>'perspective'\<close> and
  \<^verbatim>\<open>'orthographic'\<close>.
\<close>

theorem toggles_effect:
  "click toggleGrid state =
     state\<lparr> viewportSettings := (viewportSettings state)
        \<lparr> ViewportSettings.showGrid :=
            \<not> ViewportSettings.showGrid (viewportSettings state) \<rparr> \<rparr> \<and>
   click toggleAxes state =
     state\<lparr> viewportSettings := (viewportSettings state)
        \<lparr> ViewportSettings.showAxes :=
            \<not> ViewportSettings.showAxes (viewportSettings state) \<rparr> \<rparr> \<and>
   click toggleWireframe state =
     state\<lparr> viewportSettings := (viewportSettings state)
        \<lparr> ViewportSettings.wireframe :=
            \<not> ViewportSettings.wireframe (viewportSettings state) \<rparr> \<rparr> \<and>
   click toggleProjection state =
     state\<lparr> viewportSettings := (viewportSettings state)
        \<lparr> ViewportSettings.projection :=
            (case ViewportSettings.projection (viewportSettings state) of
               perspective \<Rightarrow> orthographic
             | orthographic \<Rightarrow> perspective) \<rparr> \<rparr> \<and>
   click toggleGrid (click toggleGrid state) = state \<and>
   click toggleAxes (click toggleAxes state) = state \<and>
   click toggleWireframe (click toggleWireframe state) = state \<and>
   click toggleProjection (click toggleProjection state) = state"
  by (cases state; cases "viewportSettings state";
      cases "ViewportSettings.projection (viewportSettings state)")
     (simp_all add: click_def dispatchAll_def toggleGrid_def toggleAxes_def
        toggleWireframe_def toggleProjection_def spreadViewport_def)

theorem toggles_effect_witness:
  "ViewportSettings.projection (viewportSettings (click toggleProjection initialState))
     = orthographic \<and>
   ViewportSettings.showGrid (viewportSettings (click toggleProjection initialState)) \<and>
   click toggleProjection (click toggleProjection initialState) = initialState \<and>
   \<not> ViewportSettings.showGrid (viewportSettings (click toggleGrid initialState)) \<and>
   click toggleGrid (click toggleGrid initialState) = initialState"
proof -
  note toggled = toggles_effect [of initialState]
  have projection_once: "click toggleProjection initialState =
      initialState\<lparr> viewportSettings := (viewportSettings initialState)
        \<lparr> ViewportSettings.projection :=
            (case ViewportSettings.projection (viewportSettings initialState) of
               perspective \<Rightarrow> orthographic
             | orthographic \<Rightarrow> perspective) \<rparr> \<rparr>"
    using toggled by blast
  have grid_once: "click toggleGrid initialState =
      initialState\<lparr> viewportSettings := (viewportSettings initialState)
        \<lparr> ViewportSettings.showGrid :=
            \<not> ViewportSettings.showGrid (viewportSettings initialState) \<rparr> \<rparr>"
    using toggled by blast
  have projection_twice:
    "click toggleProjection (click toggleProjection initialState) = initialState"
    and grid_twice: "click toggleGrid (click toggleGrid initialState) = initialState"
    using toggled by blast+
  have orthographic_now:
    "ViewportSettings.projection (viewportSettings (click toggleProjection initialState))
       = orthographic"
    and grid_kept:
      "ViewportSettings.showGrid (viewportSettings (click toggleProjection initialState))"
    unfolding projection_once
    by (simp_all add: initialState_def initialViewportSettings_def)
  have grid_off:
    "\<not> ViewportSettings.showGrid (viewportSettings (click toggleGrid initialState))"
    unfolding grid_once
    by (simp add: initialState_def initialViewportSettings_def)
  show ?thesis
    by (intro conjI orthographic_now grid_kept projection_twice grid_off grid_twice)
qed

section \<open>The transformation controls\<close>

lemma getAxis_setAxis: "getAxis (setAxis v axis n) axis = n"
  by (cases axis) simp_all

lemma floor_int_plus_half: "\<lfloor>of_int n + 1 / 2 :: real\<rfloor> = n"
  by (rule floor_unique) simp_all

lemma toFixed1_tenth:
  assumes "of_int \<lfloor>d * 10\<rfloor> = d * 10"
  shows "toFixed1 d = d"
proof -
  obtain n :: int where n: "d * 10 = of_int n"
    using assms by metis
  have up: "\<lfloor>d * 10 + 1 / 2\<rfloor> = n"
    unfolding n by (rule floor_int_plus_half)
  have "- d * 10 = of_int (- n)"
    using n by simp
  then have down: "\<lfloor>- d * 10 + 1 / 2\<rfloor> = - n"
    using floor_int_plus_half [of "- n"] by simp
  have "d = of_int n / 10"
    using n by simp
  then show ?thesis
    unfolding toFixed1_def up down by simp
qed

text \<open>
  Claim C4, as the sources have it. Rotation values are entered and shown in degrees
  and stored in radians: for every degree value \<open>d\<close> set through the rotation slider or
  the number field, the stored rotation component is \<open>d\<close> times pi over 180, and the
  value given to the slider is the stored component times 180 over pi, so that in exact
  arithmetic setting a rotation and reading the slider gives \<open>d\<close> back. The number field
  shows that value rounded to one digit after the decimal point, which is \<open>d\<close> itself
  whenever ten times \<open>d\<close> is a whole number.
\<close>

theorem rotation_degrees_round_trip:
  assumes "state' = dispatchAll state (handleRotationChange state axis (d # rest)) \<or>
           (parseFloat txt = Some d \<and>
            state' = dispatchAll state (handleInputChange parseFloat state Rotation axis txt))"
  shows "getAxis (Transform.rotation (transform state')) axis = (d * pi) / 180 \<and>
         rotationSliderValue state' axis = d \<and>
         rotationInputValue state' axis = toFixed1 d \<and>
         (of_int \<lfloor>d * 10\<rfloor> = d * 10 \<longrightarrow> rotationInputValue state' axis = d)"
proof -
  have stored: "getAxis (Transform.rotation (transform state')) axis = (d * pi) / 180"
    using assms
    by (auto simp: dispatchAll_def handleRotationChange_def handleInputChange_def
          spreadTransform_def getAxis_setAxis)
  show ?thesis
    by (simp add: stored rotationSliderValue_def rotationInputValue_def toFixed1_tenth)
qed

theorem rotation_degrees_round_trip_witness:
  "getAxis (Transform.rotation (transform
      (dispatchAll initialState (handleRotationChange initialState Y [90])))) Y = pi / 2 \<and>
   rotationSliderValue
      (dispatchAll initialState (handleRotationChange initialState Y [90])) Y = 90 \<and>
   rotationInputValue
      (dispatchAll initialState (handleRotationChange initialState Y [90])) Y = 90"
proof -
  have whole: "of_int \<lfloor>90 * 10 :: real\<rfloor> = (90 * 10 :: real)"
    by simp
  from rotation_degrees_round_trip
         [of "dispatchAll initialState (handleRotationChange initialState Y [90])"
             initialState Y 90 "[]" parseSample "''90''"]
       whole
  show ?thesis
    by (simp add: toFixed1_tenth)
qed

text \<open>
  Claim C4 as it was stated says that the displayed value is the stored component
  times 180 over pi, so that setting and then displaying a rotation is the identity.
  The number field does not show that: after 0.04 degrees are entered for the x axis of
  the initial state, the field shows 0.0.
\<close>

theorem rotation_input_display_counterexample:
  "rotationInputValue
     (dispatchAll initialState
        (handleInputChange parseSample initialState Rotation X ''0.04'')) X = 0 \<and>
   rotationInputValue
     (dispatchAll initialState
        (handleInputChange parseSample initialState Rotation X ''0.04'')) X \<noteq> 4 / 100"
  by (simp add: dispatchAll_def handleInputChange_def parseSample_def spreadTransform_def
        rotationInputValue_def toFixed1_def initialState_def initialTransform_def)

text \<open>
  Claim C10. For every input text whose numeric parse is NaN the handlers of the number
  fields do nothing: \<^verbatim>\<open>handleInputChange\<close> dispatches no action, so that the state
  and its transform stay as they are, and \<^verbatim>\<open>handleCustomMatrixChange\<close> leaves the
  custom matrix as it is.
\<close>

theorem nan_input_ignored:
  assumes "parseFloat value = None"
  shows "handleInputChange parseFloat state type' axis value = [] \<and>
         dispatchAll state (handleInputChange parseFloat state type' axis value) = state \<and>
         transform (dispatchAll state (handleInputChange parseFloat state type' axis value))
           = transform state \<and>
         handleCustomMatrixChange parseFloat customMatrix index value = customMatrix"
  using assms
  by (simp add: handleInputChange_def handleCustomMatrixChange_def dispatchAll_def)

theorem nan_input_ignored_witness:
  "handleInputChange parseSample exampleState Position X '''' = [] \<and>
   dispatchAll exampleState (handleInputChange parseSample exampleState Position X '''')
     = exampleState \<and>
   handleCustomMatrixChange parseSample (replicate 16 (Some 0)) 5 '''' = replicate 16 (Some 0)"
proof -
  have nan: "parseSample '''' = None"
    by (simp add: parseSample_def)
  from nan_input_ignored
         [of parseSample "''''" exampleState Position X "replicate 16 (Some 0)" 5]
       nan
  show ?thesis
    by (simp add: dispatchAll_def)
qed

section \<open>Rounding\<close>

text \<open>
  Rounding to the nearest integer, and the spacing of the doubles around a number that
  lies in a known binade or below the normal range.
\<close>

lemma roundTiesToEven_of_int: "roundTiesToEven (of_int n) = n"
  by (simp add: roundTiesToEven_def)

lemma roundTiesToEven_near:
  assumes "of_int n - 1 / 2 < v" "v < of_int n + 1 / 2"
  shows "roundTiesToEven v = n"
proof (cases "of_int n \<le> v")
  case True
  then have "\<lfloor>v\<rfloor> = n" using assms by linarith
  then show ?thesis using assms by (simp add: roundTiesToEven_def)
next
  case False
  then have f: "\<lfloor>v\<rfloor> = n - 1" using assms by linarith
  have "1 / 2 < v - of_int (n - 1)" using assms by simp
  then show ?thesis using assms f by (simp add: roundTiesToEven_def)
qed

lemma powr_powi: "2 powr real_of_int j = (2::real) powi j"
  by (simp add: powr_real_of_int')

lemma ulp_normal:
  assumes "2 powi k \<le> \<bar>v\<bar>" "\<bar>v\<bar> < 2 powi (k + 1)" "- 1022 \<le> k"
  shows "ulp v = 2 powi (k - 52)"
proof -
  have pos: "0 < \<bar>v\<bar>" using assms(1) by (smt (verit) zero_less_power_int)
  have "2 powr of_int k \<le> \<bar>v\<bar>" "\<bar>v\<bar> < 2 powr of_int (k + 1)"
    using assms unfolding powr_powi by simp_all
  then have "\<lfloor>log 2 \<bar>v\<bar>\<rfloor> = k" using pos floor_log_eq_powr_iff [of "\<bar>v\<bar>" 2 k] by simp
  then show ?thesis using assms(3) by (simp add: ulp_def max_def)
qed

lemma ulp_subnormal:
  assumes "\<bar>v\<bar> < 2 powi (- 1022)" "v \<noteq> 0"
  shows "ulp v = 2 powi (- 1074)"
proof -
  have pos: "0 < \<bar>v\<bar>" using assms by simp
  have "\<bar>v\<bar> < 2 powr of_int (- 1022)" using assms unfolding powr_powi by simp
  then have "log 2 \<bar>v\<bar> < of_int (- 1022)" using pos log_less_iff [of 2 "\<bar>v\<bar>" "of_int (- 1022)"] by simp
  then have "\<lfloor>log 2 \<bar>v\<bar>\<rfloor> < - 1022" by linarith
  then show ?thesis by (simp add: ulp_def max_def)
qed

lemma round64_zero: "round64 0 = Finite 0"
  by (simp add: round64_def)

lemma ulp_le:
  assumes "v \<noteq> 0" "\<bar>v\<bar> < 2 powi (e + 53)" "- 1074 \<le> e"
  shows "\<exists>j. 0 \<le> j \<and> ulp v = 2 powi (e - j)"
proof -
  have pos: "0 < \<bar>v\<bar>" using assms by simp
  have "\<bar>v\<bar> < 2 powr of_int (e + 53)" using assms unfolding powr_powi by simp
  then have "log 2 \<bar>v\<bar> < of_int (e + 53)" using pos log_less_iff [of 2 "\<bar>v\<bar>" "of_int (e + 53)"] by simp
  then have k: "\<lfloor>log 2 \<bar>v\<bar>\<rfloor> \<le> e + 52" by linarith
  define E where "E = max \<lfloor>log 2 \<bar>v\<bar>\<rfloor> (- 1022)"
  have "E - 52 \<le> e" using k assms(3) by (simp add: E_def max_def)
  moreover have "ulp v = 2 powi (E - 52)" by (simp add: ulp_def E_def)
  ultimately show ?thesis by (intro exI [of _ "e - (E - 52)"]) simp
qed

lemma round64_representable:
  assumes "v = of_int m * 2 powi e" "\<bar>m\<bar> < 2 ^ 53" "- 1074 \<le> e" "\<bar>v\<bar> < 2 ^ 1024"
  shows "round64 v = Finite v"
proof (cases "v = 0")
  case True
  then show ?thesis by (simp add: round64_zero)
next
  case False
  have "\<bar>v\<bar> = of_int \<bar>m\<bar> * 2 powi e" using assms(1) by (simp add: abs_mult)
  also have "\<dots> < 2 ^ 53 * 2 powi e"
  proof -
    have "(of_int \<bar>m\<bar> :: real) < of_int (2 ^ 53)" using assms(2) by (simp only: of_int_less_iff)
    then show ?thesis by simp
  qed
  also have "\<dots> = 2 powi (e + 53)" by (simp add: power_int_add)
  finally have "\<bar>v\<bar> < 2 powi (e + 53)" .
  then obtain j where j: "0 \<le> j" "ulp v = 2 powi (e - j)"
    using ulp_le [OF False _ assms(3)] by blast
  have "v / ulp v = v / 2 powi (e - j)"
    by (simp only: j(2))
  also have "\<dots> = of_int m * 2 powi j"
    unfolding assms(1) by (simp add: power_int_diff)
  also have "\<dots> = of_int (m * 2 ^ nat j)" using j(1) by (simp add: power_int_def)
  finally have q: "v / ulp v = of_int (m * 2 ^ nat j)" .
  have "of_int (roundTiesToEven (v / ulp v)) * ulp v = v / ulp v * ulp v"
    unfolding q roundTiesToEven_of_int ..
  also have "\<dots> = v" unfolding j(2) by simp
  finally show ?thesis using False assms(4) by (simp add: round64_def)
qed

lemma round64_normal:
  assumes "2 powi k \<le> \<bar>v\<bar>" "\<bar>v\<bar> < 2 powi (k + 1)" "- 1022 \<le> k"
    and "of_int n - 1 / 2 < v / 2 powi (k - 52)" "v / 2 powi (k - 52) < of_int n + 1 / 2"
  shows "round64 v =
     (if 2 ^ 1024 \<le> \<bar>of_int n * 2 powi (k - 52) :: real\<bar>
      then (if 0 < v then PosInfinity else NegInfinity)
      else Finite (of_int n * 2 powi (k - 52)))"
proof -
  have nz: "v \<noteq> 0" using assms(1) by (smt (verit) zero_less_power_int)
  show ?thesis
    using nz roundTiesToEven_near [OF assms(4,5)]
    by (simp add: round64_def Let_def ulp_normal [OF assms(1-3)])
qed

lemma round64_tiny:
  assumes "\<bar>v\<bar> < 2 powi (- 1075)"
  shows "round64 v = Finite 0"
proof (cases "v = 0")
  case True
  then show ?thesis by (simp add: round64_zero)
next
  case False
  have "(2::real) powi (- 1075) < 2 powi (- 1022)" by (simp add: power_int_strict_increasing)
  then have u: "ulp v = 2 powi (- 1074)" using ulp_subnormal False assms by force
  have "\<bar>v / 2 powi (- 1074)\<bar> = \<bar>v\<bar> * 2 powi 1074" by (simp add: abs_mult power_int_minus field_simps)
  also have "\<dots> < 2 powi (- 1075) * 2 powi 1074" using assms by simp
  also have "\<dots> = 1 / 2" by (simp add: power_int_add [symmetric])
  finally have "\<bar>v / 2 powi (- 1074)\<bar> < 1 / 2" .
  then have "roundTiesToEven (v / 2 powi (- 1074)) = 0"
    by (intro roundTiesToEven_near) (simp_all add: abs_less_iff)
  then show ?thesis using False by (simp add: round64_def u)
qed

text \<open>The roundings that the examples meet.\<close>

lemma round64_one: "round64 1 = Finite 1"
  using round64_representable [of 1 1 0] by simp

lemma round64_four: "round64 4 = Finite 4"
  using round64_representable [of 4 4 0] by simp

lemma round64_big: "round64 big = Finite big"
  using round64_representable [of big 1 350] by (simp add: big_def)

lemma round64_big_inverse: "round64 (1 / big) = Finite (1 / big)"
  using round64_representable [of "1 / big" 1 "- 350"]
  by (simp add: big_def power_int_minus field_simps)

lemma round64_big_square: "round64 (big * big) = Finite (big * big)"
  using round64_representable [of "big * big" 1 700]
  by (simp add: big_def power_add [symmetric])

lemma round64_big_cube: "round64 (big * big * big) = PosInfinity"
  using round64_normal [of 1050 "big * big * big" "2 ^ 52"]
  by (simp add: big_def power_add [symmetric] power_int_diff)

lemma round64_big_cube_right: "round64 (big * (big * big)) = PosInfinity"
  using round64_big_cube by (simp add: mult.assoc)

lemma big_positive: "0 < big"
  by (simp add: big_def)

lemma round64_tilt: "round64 tilt = Finite tilt"
  using round64_representable [of tilt 1 "- 30"]
  by (simp add: tilt_def power_int_minus field_simps)

lemma round64_minus_tilt: "round64 (- tilt) = Finite (- tilt)"
  using round64_representable [of "- tilt" "- 1" "- 30"]
  by (simp add: tilt_def power_int_minus field_simps)

lemma round64_tilt_square: "round64 (tilt * tilt) = Finite (tilt * tilt)"
  using round64_representable [of "tilt * tilt" 1 "- 60"]
  by (simp add: tilt_def power_int_minus field_simps)

lemma round64_one_tilt_square: "round64 (1 + tilt * tilt) = Finite 1"
  using round64_normal [of 0 "1 + tilt * tilt" "2 ^ 52"]
  by (simp add: tilt_def power_int_minus field_simps)

lemma round64_tilt_square_one: "round64 (tilt * tilt + 1) = Finite 1"
  using round64_one_tilt_square by (simp add: add.commute)

lemma PosInfinity_not_less: "\<not> PosInfinity < b"
  by (cases b) simp_all

section \<open>The matrix operations over the real numbers\<close>

text \<open>
  Read over the real numbers, the formulas of the library are the ones of linear algebra:
  the determinant is multiplicative, \<^const>\<open>invert4\<close> gives the inverse on either side
  of a matrix whose determinant is not zero, and the product of the transpose of a
  matrix with the matrix is the identity exactly when its columns are orthonormal.
\<close>

lemma determinant_multiplyMatrices:
  "determinant (multiplyMatrices a b) = determinant a * determinant (b :: real Matrix4)"
  unfolding determinant_def multiplyMatrices_def Let_def
  by (simp only: Matrix4.simps) algebra

lemma determinant_identity4: "determinant (identity4 :: real Matrix4) = 1"
  by (simp add: determinant_def identity4_def)

text \<open>The determinant as \<^const>\<open>invert4\<close> computes it is the one of \<^const>\<open>determinant\<close>.\<close>

lemma invert4_det_eq:
  "e0 m * (e9 m * e14 m * e7 m - e13 m * e10 m * e7 m + e13 m * e6 m * e11 m
           - e5 m * e14 m * e11 m - e9 m * e6 m * e15 m + e5 m * e10 m * e15 m)
   + e1 m * (e12 m * e10 m * e7 m - e8 m * e14 m * e7 m - e12 m * e6 m * e11 m
             + e4 m * e14 m * e11 m + e8 m * e6 m * e15 m - e4 m * e10 m * e15 m)
   + e2 m * (e8 m * e13 m * e7 m - e12 m * e9 m * e7 m + e12 m * e5 m * e11 m
             - e4 m * e13 m * e11 m - e8 m * e5 m * e15 m + e4 m * e9 m * e15 m)
   + e3 m * (e12 m * e9 m * e6 m - e8 m * e13 m * e6 m - e12 m * e5 m * e10 m
             + e4 m * e13 m * e10 m + e8 m * e5 m * e14 m - e4 m * e9 m * e14 m)
   = determinant (m :: real Matrix4)"
  unfolding determinant_def Let_def by algebra

lemma invert4_singular: "determinant (m :: real Matrix4) = 0 \<Longrightarrow> invert4 m = zero4"
  by (simp add: invert4_def Let_def invert4_det_eq)

lemma row_times_column_over:
  "a * (p * (1 / d)) + b * (q * (1 / d)) + c * (r * (1 / d)) + e * (s * (1 / d))
     = (a * p + b * q + c * r + e * s) / (d::real)"
  by (simp add: add_divide_distrib)

lemma column_times_row_over:
  "p * (1 / d) * a + q * (1 / d) * b + r * (1 / d) * c + s * (1 / d) * e
     = (p * a + q * b + r * c + s * e) / (d::real)"
  by (simp add: add_divide_distrib)

lemma quotient_one: "d \<noteq> 0 \<Longrightarrow> n = d \<Longrightarrow> n / d = (1::real)"
  by simp

lemma quotient_zero: "n = 0 \<Longrightarrow> n / d = (0::real)"
  by simp

lemma multiply_invert4_right:
  assumes "determinant (m :: real Matrix4) \<noteq> 0"
  shows "multiplyMatrices m (invert4 m) = identity4"
  unfolding invert4_def Let_def invert4_det_eq
  apply (simp only: assms if_False)
  unfolding multiplyMatrices_def Let_def identity4_def
  apply (simp only: Matrix4.simps row_times_column_over)
  apply (simp only: Matrix4.ext_inject)
  apply (intro conjI refl quotient_one [OF assms] quotient_zero)
  unfolding determinant_def Let_def
                 apply algebra+
  done

lemma multiply_invert4_left:
  assumes "determinant (m :: real Matrix4) \<noteq> 0"
  shows "multiplyMatrices (invert4 m) m = identity4"
  unfolding invert4_def Let_def invert4_det_eq
  apply (simp only: assms if_False)
  unfolding multiplyMatrices_def Let_def identity4_def
  apply (simp only: Matrix4.simps column_times_row_over)
  apply (simp only: Matrix4.ext_inject)
  apply (intro conjI refl quotient_one [OF assms] quotient_zero)
  unfolding determinant_def Let_def
                 apply algebra+
  done

lemma all_below_4: "(\<forall>i<4. P i) = (P 0 \<and> P 1 \<and> P 2 \<and> P (3::nat))"
  by (auto simp: numeral_eq_Suc less_Suc_eq)

lemma sum_below_4: "(\<Sum>k<4. f k) = f 0 + f 1 + f 2 + f (3::nat)"
  by (simp add: numeral_eq_Suc)

lemma columns_orthonormal_iff:
  "(multiplyMatrices (transpose4 m) m = (identity4 :: real Matrix4)) =
   (\<forall>i<4. \<forall>j<4. (\<Sum>k<4. entry m k i * entry m k j) = (if i = j then 1 else 0))"
  unfolding all_below_4 sum_below_4
  by (simp add: multiplyMatrices_def transpose4_def identity4_def entry_def elements_def
        Let_def)
     (auto simp: mult.commute)

section \<open>The matrix operations over the doubles\<close>

text \<open>
  \<^verbatim>\<open>equals\<close> against the identity is equality with it, since no element of the identity
  is NaN; and the entry in row \<open>i\<close> and column \<open>j\<close> of the product of the transpose of a
  matrix with the matrix is the sum, taken from the left, of the four products of the
  entries of its columns \<open>i\<close> and \<open>j\<close>. This holds for any numbers, rounded or not: no law
  of arithmetic is used.
\<close>

lemma equals_identity4:
  "list_all2 strictEquals (elements p) (elements identity4) = (p = identity4)"
  by (cases p) (auto simp: elements_def identity4_def strictEquals_def zero_double_def
        one_double_def)

lemma strictEquals_delta:
  "strictEquals a (if i = j then 1 else 0) = (a = (if i = j then 1 else 0))"
  by (auto simp: strictEquals_def zero_double_def one_double_def)

lemma product_identity4_iff:
  "(multiplyMatrices (transpose4 m) m = identity4) =
   (\<forall>i<4. \<forall>j<4.
      entry m 0 i * entry m 0 j + entry m 1 i * entry m 1 j
        + entry m 2 i * entry m 2 j + entry m 3 i * entry m 3 j
      = (if i = j then 1 else 0))"
  unfolding all_below_4
  by (simp add: multiplyMatrices_def transpose4_def identity4_def entry_def elements_def
        Let_def) blast

lemma determinant_zero4: "determinant (zero4 :: double Matrix4) = 0"
  by (simp add: determinant_def zero4_def zero_double_def minus_double_def round64_zero)

text \<open>
  The scale by \<open>2\<^sup>3\<^sup>5\<^sup>0\<close>: its determinant overflows, so \<^verbatim>\<open>invert\<close> multiplies the
  cofactors by \<open>1 / \<infinity> = 0\<close>, and the last cofactor, which has overflowed too, becomes
  \<open>\<infinity> \<times> 0\<close>.
\<close>

lemma determinant_hugeScale: "determinant hugeScale = PosInfinity"
  by (simp add: determinant_def hugeScale_def uniformScale_def Let_def
        zero_double_def one_double_def minus_double_def round64_zero round64_big
        round64_big_square round64_big_cube round64_big_cube_right big_positive)

lemma invert4_hugeScale: "invert4 hugeScale = zeroAndNaN"
  by (simp add: invert4_def hugeScale_def uniformScale_def zeroAndNaN_def zero4_def Let_def
        zero_double_def one_double_def minus_double_def round64_zero round64_big
        round64_big_square round64_big_cube round64_big_cube_right big_positive)

lemma determinant_zeroAndNaN: "determinant zeroAndNaN = NaN"
  by (simp add: determinant_def zeroAndNaN_def zero4_def Let_def
        zero_double_def one_double_def minus_double_def round64_zero)

text \<open>
  The near-rotation: \<open>1 + 2\<^sup>-\<^sup>6\<^sup>0\<close> rounds to 1, so the product that the library computes
  is the identity.
\<close>

lemma nearRotation_held: "mapMatrix4 round64 nearRotation = mapMatrix4 Finite nearRotation"
  by (simp add: mapMatrix4_def nearRotation_def round64_zero round64_one round64_tilt
        round64_minus_tilt)

lemma nearRotation_product:
  "multiplyMatrices (transpose4 (mapMatrix4 Finite nearRotation))
     (mapMatrix4 Finite nearRotation) = identity4"
  by (simp add: mapMatrix4_def nearRotation_def Let_def
        multiplyMatrices_def transpose4_def identity4_def zero_double_def one_double_def
        round64_zero round64_one round64_tilt round64_minus_tilt round64_tilt_square
        round64_one_tilt_square round64_tilt_square_one)

section \<open>The matrix panel\<close>

text \<open>
  Claim C3. Whenever an object is selected, Apply Identity dispatches
  \<^verbatim>\<open>UPDATE_TRANSFORM\<close> with position (0,0,0), rotation (0,0,0) and scale (1,1,1), so
  that afterwards \<^verbatim>\<open>state.transform\<close> is the initial transform; when no object is
  selected it leaves the state, and the store, as they are.
\<close>

theorem apply_identity_effect:
  "(selectedObject state = None \<longrightarrow>
      applyIdentityMatrix s state = (s, [], []) \<and>
      dispatchAll state (fst (snd (applyIdentityMatrix s state))) = state) \<and>
   (selectedObject state \<noteq> None \<longrightarrow>
      fst (snd (applyIdentityMatrix s state)) =
        [UPDATE_TRANSFORM
           \<lparr> TransformPayload.position = Some \<lparr> x = 0, y = 0, z = 0 \<rparr>,
             rotation = Some \<lparr> x = 0, y = 0, z = 0 \<rparr>,
             scale = Some \<lparr> x = 1, y = 1, z = 1 \<rparr> \<rparr>] \<and>
      transform (dispatchAll state (fst (snd (applyIdentityMatrix s state))))
        = initialTransform \<and>
      dispatchAll state (fst (snd (applyIdentityMatrix s state)))
        = state\<lparr> transform := initialTransform \<rparr>)"
  by (auto simp: applyIdentityMatrix_def dispatchAll_def Let_def split_def
        spreadTransform_def initialTransform_def)

theorem apply_identity_effect_witness:
  "selectedObject exampleState \<noteq> None \<and>
   transform (dispatchAll exampleState
      (fst (snd (applyIdentityMatrix (exampleStore scaleTwo) exampleState))))
     = initialTransform \<and>
   selectedObject initialState = None \<and>
   applyIdentityMatrix (exampleStore scaleTwo) initialState = (exampleStore scaleTwo, [], [])"
proof -
  have chosen: "selectedObject exampleState \<noteq> None"
    by (simp add: selectedObject_def exampleState_def exampleObject_def)
  have none_chosen: "selectedObject initialState = None"
    by (simp add: selectedObject_def initialState_def)
  note selected =
    apply_identity_effect [of exampleState "exampleStore scaleTwo", THEN conjunct2,
      rule_format, OF chosen]
  note unselected =
    apply_identity_effect [of initialState "exampleStore scaleTwo", THEN conjunct1,
      rule_format, OF none_chosen]
  show ?thesis
    by (intro conjI chosen none_chosen conjunct1 [OF conjunct2 [OF selected]]
          conjunct1 [OF unselected])
qed

lemma checkIfOrthogonal_result:
  assumes "matrix' < nextRef s"
  shows "fst (checkIfOrthogonal s matrix') =
      (multiplyMatrices (transpose4 (matrix4s s matrix')) (matrix4s s matrix') = identity4)"
  using assms
  by (simp add: checkIfOrthogonal_def Matrix4_clone_def Matrix4_new_def Matrix4_copy_def
        Matrix4_transpose_def Matrix4_identity_def Matrix4_multiply_def Matrix4_equals_def
        Let_def equals_identity4)

text \<open>
  Claim C8, as it holds. The orthogonality check is stateless, and it is correct for the
  product that the library computes: for a matrix \<open>M\<close> of the store,
  \<^verbatim>\<open>checkIfOrthogonal(M)\<close> returns true if and only if the transpose of \<open>M\<close> multiplied
  by \<open>M\<close> in double precision equals the identity matrix, that is, if and only if for
  all columns \<open>i\<close> and \<open>j\<close> of \<open>M\<close> the sum of the four rounded products of their entries,
  added from the left with a rounding after each addition, is \<^verbatim>\<open>===\<close> 1 when \<open>i = j\<close>
  and 0 otherwise. The check leaves \<open>M\<close>, every other matrix that existed before it and
  every mesh unchanged. The panel computes its own flag by the same check on its
  current matrix.
\<close>

theorem checkIfOrthogonal_computed:
  assumes "matrix' < nextRef s"
  shows "fst (checkIfOrthogonal s matrix') =
           (multiplyMatrices (transpose4 (matrix4s s matrix')) (matrix4s s matrix')
              = (identity4 :: double Matrix4)) \<and>
         fst (checkIfOrthogonal s matrix') =
           (\<forall>i<4. \<forall>j<4.
              strictEquals
                (entry (matrix4s s matrix') 0 i * entry (matrix4s s matrix') 0 j
                   + entry (matrix4s s matrix') 1 i * entry (matrix4s s matrix') 1 j
                   + entry (matrix4s s matrix') 2 i * entry (matrix4s s matrix') 2 j
                   + entry (matrix4s s matrix') 3 i * entry (matrix4s s matrix') 3 j)
                (if i = j then 1 else 0)) \<and>
         matrix4s (snd (checkIfOrthogonal s matrix')) matrix' = matrix4s s matrix' \<and>
         (\<forall>r<nextRef s. matrix4s (snd (checkIfOrthogonal s matrix')) r = matrix4s s r) \<and>
         meshes (snd (checkIfOrthogonal s matrix')) = meshes s \<and>
         isOrthogonal s state =
           (let (currentMatrix, s0) = getCurrentMatrix s state
            in checkIfOrthogonal s0 currentMatrix)"
proof -
  have frame: "\<forall>r<nextRef s. matrix4s (snd (checkIfOrthogonal s matrix')) r = matrix4s s r"
    by (simp add: checkIfOrthogonal_def Matrix4_clone_def Matrix4_new_def Matrix4_copy_def
          Matrix4_transpose_def Matrix4_identity_def Matrix4_multiply_def Let_def)
  have same_meshes: "meshes (snd (checkIfOrthogonal s matrix')) = meshes s"
    by (simp add: checkIfOrthogonal_def Matrix4_clone_def Matrix4_new_def Matrix4_copy_def
          Matrix4_transpose_def Matrix4_identity_def Matrix4_multiply_def Let_def)
  have panel: "isOrthogonal s state =
      (let (currentMatrix, s0) = getCurrentMatrix s state
       in checkIfOrthogonal s0 currentMatrix)"
    by (simp add: isOrthogonal_def checkIfOrthogonal_def Let_def split_def)
  show ?thesis
    using frame assms
    by (simp only: strictEquals_delta product_identity4_iff [symmetric]
          checkIfOrthogonal_result [OF assms] same_meshes panel [symmetric])
qed

theorem checkIfOrthogonal_computed_witness:
  "fst (checkIfOrthogonal (exampleStore scaleTwo) (Suc 0)) \<and>
   \<not> fst (checkIfOrthogonal (exampleStore scaleTwo) 0) \<and>
   matrix4s (snd (checkIfOrthogonal (exampleStore scaleTwo) 0)) 0 = scaleTwo"
proof -
  have first: "0 < nextRef (exampleStore scaleTwo)"
    and second: "Suc 0 < nextRef (exampleStore scaleTwo)"
    by (simp_all add: exampleStore_def)
  have cached: "matrix4s (exampleStore scaleTwo) (Suc 0) = identity4"
    and local: "matrix4s (exampleStore scaleTwo) 0 = scaleTwo"
    by (simp_all add: exampleStore_def)
  have yes: "multiplyMatrices (transpose4 identity4) identity4 = (identity4 :: double Matrix4)"
    by (simp add: multiplyMatrices_def transpose4_def identity4_def zero_double_def
          one_double_def round64_zero round64_one Let_def)
  have no: "multiplyMatrices (transpose4 scaleTwo) scaleTwo \<noteq> identity4"
    by (simp add: multiplyMatrices_def transpose4_def identity4_def scaleTwo_def
          uniformScale_def zero_double_def one_double_def round64_zero round64_one
          round64_four Let_def)
  from checkIfOrthogonal_computed [OF first, of exampleState]
       checkIfOrthogonal_computed [OF second, of exampleState]
  show ?thesis
    by (simp only: cached local yes no) simp
qed

text \<open>
  Claim C8, as it is stated: the check answers true for the near-rotation, a matrix
  of doubles whose transpose multiplied by it is not the identity matrix. Its first
  column has the squared length \<open>1 + 2\<^sup>-\<^sup>6\<^sup>0\<close>.
\<close>

theorem checkIfOrthogonal_counterexample:
  "fst (checkIfOrthogonal (exampleStore (mapMatrix4 Finite nearRotation)) 0) \<and>
   mapMatrix4 round64 nearRotation = mapMatrix4 Finite nearRotation \<and>
   multiplyMatrices (transpose4 nearRotation) nearRotation \<noteq> identity4 \<and>
   entry nearRotation 0 0 * entry nearRotation 0 0
     + entry nearRotation 1 0 * entry nearRotation 1 0
     + entry nearRotation 2 0 * entry nearRotation 2 0
     + entry nearRotation 3 0 * entry nearRotation 3 0 = 1 + 1 / 2 ^ 60"
proof -
  have allocated: "0 < nextRef (exampleStore (mapMatrix4 Finite nearRotation))"
    and cell: "matrix4s (exampleStore (mapMatrix4 Finite nearRotation)) 0
      = mapMatrix4 Finite nearRotation"
    by (simp_all add: exampleStore_def)
  have computed: "fst (checkIfOrthogonal (exampleStore (mapMatrix4 Finite nearRotation)) 0)"
    unfolding checkIfOrthogonal_result [OF allocated] cell by (rule nearRotation_product)
  have exact: "multiplyMatrices (transpose4 nearRotation) nearRotation \<noteq> identity4"
    by (simp add: multiplyMatrices_def transpose4_def identity4_def nearRotation_def
          tilt_def Let_def)
  have column: "entry nearRotation 0 0 * entry nearRotation 0 0
     + entry nearRotation 1 0 * entry nearRotation 1 0
     + entry nearRotation 2 0 * entry nearRotation 2 0
     + entry nearRotation 3 0 * entry nearRotation 3 0 = 1 + 1 / 2 ^ 60"
    by (simp add: entry_def elements_def nearRotation_def tilt_def)
  show ?thesis
    by (intro conjI computed nearRotation_held exact column)
qed

text \<open>
  The button that calls \<^const>\<open>invertMatrix\<close> looks at the cached matrix of the
  selected object, not at the matrix of its mesh.
\<close>

lemma invertMatrixDisabled_selected:
  assumes "selectedObject state = Some obj"
  shows "invertMatrixDisabled s state =
           (\<bar>determinant (matrix4s s (SceneObject.matrix obj))\<bar> < round64 (1 / 1000))"
  using assms
  by (simp add: invertMatrixDisabled_def getCurrentMatrix_def Matrix4_determinant_def)

text \<open>
  What the handler does with the matrix \<open>I\<close> that \<^verbatim>\<open>invert\<close> computes from the mesh
  matrix of the selected object. When the determinant of \<open>I\<close>, as the library computes
  it, is \<^verbatim>\<open>=== 0\<close>, it raises the error toast and dispatches nothing, and the store
  differs only in the fresh matrix that holds \<open>I\<close>. Otherwise it writes \<open>I\<close> into the
  mesh matrix, clears \<^verbatim>\<open>matrixAutoUpdate\<close> and dispatches the decomposition of \<open>I\<close>.
\<close>

lemma invertMatrix_computed:
  assumes chosen: "selectedObject state = Some obj"
    and allocated: "Mesh.matrix (meshes s (mesh obj)) < nextRef s"
  shows
   "invertMatrix decompose setFromQuaternion s state =
      (if strictEquals
            (determinant (invert4 (matrix4s s (Mesh.matrix (meshes s (mesh obj)))))) 0
       then
         (s\<lparr> matrix4s :=
               (matrix4s s)(nextRef s :=
                  invert4 (matrix4s s (Mesh.matrix (meshes s (mesh obj))))),
             nextRef := Suc (nextRef s) \<rparr>,
          [], [toast_error ''Matrix is not invertible (determinant is 0)''])
       else
         (s\<lparr> matrix4s :=
               (matrix4s s)
                 (nextRef s := invert4 (matrix4s s (Mesh.matrix (meshes s (mesh obj)))),
                  Mesh.matrix (meshes s (mesh obj)) :=
                    invert4 (matrix4s s (Mesh.matrix (meshes s (mesh obj))))),
             nextRef := Suc (nextRef s),
             meshes := (meshes s)
               (mesh obj := (meshes s (mesh obj))\<lparr> matrixAutoUpdate := False \<rparr>) \<rparr>,
          [UPDATE_TRANSFORM
             (fullPayload
                (fst (decompose (invert4 (matrix4s s (Mesh.matrix (meshes s (mesh obj)))))))
                (setFromQuaternion
                   (fst (snd (decompose
                      (invert4 (matrix4s s (Mesh.matrix (meshes s (mesh obj)))))))))
                (snd (snd (decompose
                   (invert4 (matrix4s s (Mesh.matrix (meshes s (mesh obj)))))))))],
          [toast_success ''Matrix inverted'']))"
proof -
  define mref where "mref = Mesh.matrix (meshes s (mesh obj))"
  have fresh: "mref \<noteq> nextRef s"
    using allocated mref_def by simp
  show ?thesis
    using fresh
    unfolding mref_def [symmetric]
    by (simp add: invertMatrix_def chosen Matrix4_new_def Matrix4_copy_def
          Matrix4_invert_def Matrix4_determinant_def setMatrixAutoUpdate_def Let_def
          split_def mref_def [symmetric])
qed

text \<open>
  When \<^verbatim>\<open>invert\<close> finds the determinant to be zero it returns the zero matrix, and the
  handler reports the error: no action is dispatched, and the mesh matrix, every other
  matrix that existed before and every mesh are as they were.
\<close>

lemma invertMatrix_zero_atomic:
  assumes chosen: "selectedObject state = Some obj"
    and allocated: "Mesh.matrix (meshes s (mesh obj)) < nextRef s"
    and zero: "invert4 (matrix4s s (Mesh.matrix (meshes s (mesh obj)))) = zero4"
  shows "snd (invertMatrix decompose setFromQuaternion s state) =
           ([], [toast_error ''Matrix is not invertible (determinant is 0)''])"
    and "\<forall>r<nextRef s.
           matrix4s (fst (invertMatrix decompose setFromQuaternion s state)) r = matrix4s s r"
    and "meshes (fst (invertMatrix decompose setFromQuaternion s state)) = meshes s"
  unfolding invertMatrix_computed [OF chosen allocated] zero
  by (simp_all add: determinant_zero4 strictEquals_def zero_double_def)

text \<open>
  Claim C2 fails in the code. The matrix that scales by \<open>2\<^sup>3\<^sup>5\<^sup>0\<close> along every axis is a
  matrix of doubles; its determinant is \<open>2\<^sup>1\<^sup>0\<^sup>5\<^sup>0\<close>, not zero, and the library computes it
  as infinity, so the button is enabled. Its inverse, the scale by \<open>2\<^sup>-\<^sup>3\<^sup>5\<^sup>0\<close>, is a
  matrix of doubles as well. With this matrix as the mesh matrix of the selected object
  and as its cached copy, Invert Matrix raises the toast of success, dispatches what
  the library decomposes the matrix of zeros and one NaN into, and writes that matrix
  into the mesh matrix: a matrix whose product with the scale is not the identity.
\<close>

theorem invertMatrix_overflow:
  "\<not> invertMatrixDisabled (syncedStore hugeScale) exampleState \<and>
   snd (invertMatrix decompose setFromQuaternion (syncedStore hugeScale) exampleState) =
     ([UPDATE_TRANSFORM
         (fullPayload (fst (decompose zeroAndNaN))
            (setFromQuaternion (fst (snd (decompose zeroAndNaN))))
            (snd (snd (decompose zeroAndNaN))))],
      [toast_success ''Matrix inverted'']) \<and>
   matrix4s (fst (invertMatrix decompose setFromQuaternion (syncedStore hugeScale)
                    exampleState)) 0 = zeroAndNaN \<and>
   multiplyMatrices hugeScale zeroAndNaN \<noteq> identity4 \<and>
   hugeScale = mapMatrix4 Finite (uniformScale big) \<and>
   determinant hugeScale = PosInfinity \<and>
   determinant (uniformScale big :: real Matrix4) \<noteq> 0 \<and>
   mapMatrix4 round64 (invert4 (uniformScale big)) = mapMatrix4 Finite (uniformScale (1 / big))"
proof -
  have chosen: "selectedObject exampleState = Some exampleObject"
    by (simp add: selectedObject_def exampleState_def exampleObject_def)
  have at: "Mesh.matrix (meshes (syncedStore hugeScale) (mesh exampleObject)) = 0"
    by (simp add: syncedStore_def exampleStore_def)
  have allocated: "Mesh.matrix (meshes (syncedStore hugeScale) (mesh exampleObject))
      < nextRef (syncedStore hugeScale)"
    by (simp add: syncedStore_def exampleStore_def)
  have cell: "matrix4s (syncedStore hugeScale) 0 = hugeScale"
    and cached: "matrix4s (syncedStore hugeScale) (SceneObject.matrix exampleObject) = hugeScale"
    by (simp_all add: syncedStore_def exampleStore_def exampleObject_def)
  have test: "\<not> strictEquals (determinant (invert4 hugeScale)) 0"
    by (simp add: invert4_hugeScale determinant_zeroAndNaN strictEquals_def)
  have enabled: "\<not> invertMatrixDisabled (syncedStore hugeScale) exampleState"
    by (simp add: invertMatrixDisabled_def getCurrentMatrix_def chosen
          Matrix4_determinant_def cached determinant_hugeScale PosInfinity_not_less)
  have run: "invertMatrix decompose setFromQuaternion (syncedStore hugeScale) exampleState =
      ((syncedStore hugeScale)
         \<lparr> matrix4s :=
             (matrix4s (syncedStore hugeScale))
               (nextRef (syncedStore hugeScale) := zeroAndNaN, 0 := zeroAndNaN),
           nextRef := Suc (nextRef (syncedStore hugeScale)),
           meshes := (meshes (syncedStore hugeScale))
             (mesh exampleObject :=
                (meshes (syncedStore hugeScale) (mesh exampleObject))
                  \<lparr> matrixAutoUpdate := False \<rparr>) \<rparr>,
       [UPDATE_TRANSFORM
          (fullPayload (fst (decompose zeroAndNaN))
             (setFromQuaternion (fst (snd (decompose zeroAndNaN))))
             (snd (snd (decompose zeroAndNaN))))],
       [toast_success ''Matrix inverted''])"
    unfolding invertMatrix_computed [OF chosen allocated] at cell invert4_hugeScale
    using test by (simp add: invert4_hugeScale)
  have garbage: "multiplyMatrices hugeScale zeroAndNaN \<noteq> identity4"
    by (simp add: multiplyMatrices_def hugeScale_def uniformScale_def zeroAndNaN_def
          zero4_def identity4_def Let_def zero_double_def one_double_def round64_zero)
  have same: "hugeScale = mapMatrix4 Finite (uniformScale big)"
    by (simp add: hugeScale_def uniformScale_def mapMatrix4_def zero_double_def
          one_double_def)
  have det: "determinant (uniformScale big :: real Matrix4) \<noteq> 0"
    using big_positive by (simp add: determinant_def uniformScale_def Let_def)
  have inverse: "invert4 (uniformScale big) = (uniformScale (1 / big) :: real Matrix4)"
    using big_positive
    by (simp add: invert4_def uniformScale_def Let_def)
  have representable:
    "mapMatrix4 round64 (invert4 (uniformScale big)) = mapMatrix4 Finite (uniformScale (1 / big))"
    unfolding inverse
    by (simp add: mapMatrix4_def uniformScale_def round64_zero round64_one
          round64_big_inverse)
  show ?thesis
    unfolding run
    by (intro conjI enabled garbage same determinant_hugeScale det representable) simp_all
qed

end
